theory Spec2Isabelle
  imports Complex_Main "HOL-Library.Word"
begin

unbundle bit_operations_syntax

chapter \<open>imgui-go-examples: platforms (SDL2, GLFW) and the OpenGL3 renderer\<close>

text \<open>
  A shallow embedding of \<^verbatim>\<open>internal/platforms/sdl.go\<close>, \<^verbatim>\<open>internal/platforms/glfw.go\<close>
  and \<^verbatim>\<open>internal/renderers/OpenGL3.go\<close>. The three files are glue between native
  libraries (SDL2, GLFW, OpenGL) and the Dear ImGui binding. The Go code of the repository
  is translated function by function; each native library is represented by the part of its
  state that the Go code reads or writes, together with the list of calls the Go code issued,
  in order. What a library call returns that the Go code cannot determine (success or
  failure of an initialisation, the name the driver picks for a new object) is an input of
  the model.
\<close>

section \<open>Go values\<close>

type_synonym int32 = "32 word"
type_synonym uint32 = "32 word"
type_synonym uint16 = "16 word"
type_synonym uint8 = "8 word"
type_synonym uint64 = "64 word"
type_synonym uintptr = "64 word"

text \<open>
  Go's \<^verbatim>\<open>int\<close> is modelled by \<^typ>\<open>int\<close>; a conversion \<^verbatim>\<open>int32(x)\<close> or
  \<^verbatim>\<open>uintptr(x)\<close> of such a value is \<^const>\<open>word_of_int\<close>, which keeps the low bits as the
  Go conversion does. A conversion between \<^verbatim>\<open>int32\<close> and \<^verbatim>\<open>uint32\<close> keeps all bits
  and is the identity on \<^typ>\<open>32 word\<close>.

  A \<^verbatim>\<open>float32\<close> or \<^verbatim>\<open>float64\<close> is represented by the real number it denotes.
  Conversions are named functions, so that every statement below shows where the Go code
  converts; their definitions are exact, i.e. rounding, infinities and NaN are left out.
\<close>

type_synonym float32 = real
type_synonym float64 = real

definition float32_of_float64 :: "float64 \<Rightarrow> float32" where
  "float32_of_float64 x = x"

definition float32_of_int32 :: "int32 \<Rightarrow> float32" where
  "float32_of_int32 n = real_of_int (sint n)"

definition float32_of_uint64 :: "uint64 \<Rightarrow> float32" where
  "float32_of_uint64 n = real (unat n)"

definition int32_of_float32 :: "float32 \<Rightarrow> int32" where
  "int32_of_float32 x = word_of_int (if 0 \<le> x then \<lfloor>x\<rfloor> else \<lceil>x\<rceil>)"

text \<open>
  An \<^verbatim>\<open>error\<close> value. \<^verbatim>\<open>nil\<close> is \<^const>\<open>None\<close> in \<^typ>\<open>'a option\<close>.
  \<open>LibraryError\<close> is an error returned by a native library binding,
  \<open>Errorf msg e\<close> is \<^verbatim>\<open>fmt.Errorf(msg + "%w", e)\<close>, and
  \<open>ErrUnsupportedClientAPI\<close> is the package-level sentinel of package
  \<^verbatim>\<open>platforms\<close> (declared in a file that is not among the sources; it is used here
  only as a value distinct from every wrapped error).
\<close>

datatype go_error =
    LibraryError string
  | Errorf string go_error
  | ErrUnsupportedClientAPI


text \<open>
  A Go \<^verbatim>\<open>switch\<close> over constants whose cases all \<^verbatim>\<open>return\<close>: the cases are
  listed in source order as pairs of the case constant and the returned value; the first
  case equal to the tag is taken, and \<^const>\<open>None\<close> means that no case matched and
  control continues after the \<^verbatim>\<open>switch\<close>.
\<close>

fun go_switch :: "('k \<times> 'v) list \<Rightarrow> 'k \<Rightarrow> 'v option" where
  "go_switch [] tag = None"
| "go_switch ((c, v) # cases) tag = (if tag = c then Some v else go_switch cases tag)"

text \<open>The last \<open>n\<close> entries of a list of calls, in the order they were issued.\<close>

definition last_calls :: "nat \<Rightarrow> 'a list \<Rightarrow> 'a list" where
  "last_calls n cs = rev (take n (rev cs))"

section \<open>The Dear ImGui binding\<close>

text \<open>
  \<^verbatim>\<open>imgui.ImguiKey\<close> is an enumeration of the binding. Its members are identified
  by their Go names; different names are different keys.
\<close>

datatype ImguiKey = ImguiKey string

definition KeyNone :: ImguiKey where "KeyNone = ImguiKey ''KeyNone''"
definition KeyTab :: ImguiKey where "KeyTab = ImguiKey ''KeyTab''"
definition KeyLeftArrow :: ImguiKey where "KeyLeftArrow = ImguiKey ''KeyLeftArrow''"
definition KeyRightArrow :: ImguiKey where "KeyRightArrow = ImguiKey ''KeyRightArrow''"
definition KeyUpArrow :: ImguiKey where "KeyUpArrow = ImguiKey ''KeyUpArrow''"
definition KeyDownArrow :: ImguiKey where "KeyDownArrow = ImguiKey ''KeyDownArrow''"
definition KeyPageUp :: ImguiKey where "KeyPageUp = ImguiKey ''KeyPageUp''"
definition KeyPageDown :: ImguiKey where "KeyPageDown = ImguiKey ''KeyPageDown''"
definition KeyHome :: ImguiKey where "KeyHome = ImguiKey ''KeyHome''"
definition KeyEnd :: ImguiKey where "KeyEnd = ImguiKey ''KeyEnd''"
definition KeyInsert :: ImguiKey where "KeyInsert = ImguiKey ''KeyInsert''"
definition KeyDelete :: ImguiKey where "KeyDelete = ImguiKey ''KeyDelete''"
definition KeyBackspace :: ImguiKey where "KeyBackspace = ImguiKey ''KeyBackspace''"
definition KeySpace :: ImguiKey where "KeySpace = ImguiKey ''KeySpace''"
definition KeyEnter :: ImguiKey where "KeyEnter = ImguiKey ''KeyEnter''"
definition KeyEscape :: ImguiKey where "KeyEscape = ImguiKey ''KeyEscape''"
definition KeyComma :: ImguiKey where "KeyComma = ImguiKey ''KeyComma''"
definition KeyPeriod :: ImguiKey where "KeyPeriod = ImguiKey ''KeyPeriod''"
definition KeySemicolon :: ImguiKey where "KeySemicolon = ImguiKey ''KeySemicolon''"
definition KeyCapsLock :: ImguiKey where "KeyCapsLock = ImguiKey ''KeyCapsLock''"
definition KeyScrollLock :: ImguiKey where "KeyScrollLock = ImguiKey ''KeyScrollLock''"
definition KeyNumLock :: ImguiKey where "KeyNumLock = ImguiKey ''KeyNumLock''"
definition KeyPrintScreen :: ImguiKey where "KeyPrintScreen = ImguiKey ''KeyPrintScreen''"
definition KeyPause :: ImguiKey where "KeyPause = ImguiKey ''KeyPause''"
definition KeyKeypad0 :: ImguiKey where "KeyKeypad0 = ImguiKey ''KeyKeypad0''"
definition KeyKeypad1 :: ImguiKey where "KeyKeypad1 = ImguiKey ''KeyKeypad1''"
definition KeyKeypad2 :: ImguiKey where "KeyKeypad2 = ImguiKey ''KeyKeypad2''"
definition KeyKeypad3 :: ImguiKey where "KeyKeypad3 = ImguiKey ''KeyKeypad3''"
definition KeyKeypad4 :: ImguiKey where "KeyKeypad4 = ImguiKey ''KeyKeypad4''"
definition KeyKeypad5 :: ImguiKey where "KeyKeypad5 = ImguiKey ''KeyKeypad5''"
definition KeyKeypad6 :: ImguiKey where "KeyKeypad6 = ImguiKey ''KeyKeypad6''"
definition KeyKeypad7 :: ImguiKey where "KeyKeypad7 = ImguiKey ''KeyKeypad7''"
definition KeyKeypad8 :: ImguiKey where "KeyKeypad8 = ImguiKey ''KeyKeypad8''"
definition KeyKeypad9 :: ImguiKey where "KeyKeypad9 = ImguiKey ''KeyKeypad9''"
definition KeyKeypadDecimal :: ImguiKey where "KeyKeypadDecimal = ImguiKey ''KeyKeypadDecimal''"
definition KeyKeypadDivide :: ImguiKey where "KeyKeypadDivide = ImguiKey ''KeyKeypadDivide''"
definition KeyKeypadMultiply :: ImguiKey where "KeyKeypadMultiply = ImguiKey ''KeyKeypadMultiply''"
definition KeyKeypadSubtract :: ImguiKey where "KeyKeypadSubtract = ImguiKey ''KeyKeypadSubtract''"
definition KeyKeypadAdd :: ImguiKey where "KeyKeypadAdd = ImguiKey ''KeyKeypadAdd''"
definition KeyKeypadEnter :: ImguiKey where "KeyKeypadEnter = ImguiKey ''KeyKeypadEnter''"
definition KeyKeypadEqual :: ImguiKey where "KeyKeypadEqual = ImguiKey ''KeyKeypadEqual''"
definition KeyLeftCtrl :: ImguiKey where "KeyLeftCtrl = ImguiKey ''KeyLeftCtrl''"
definition KeyLeftShift :: ImguiKey where "KeyLeftShift = ImguiKey ''KeyLeftShift''"
definition KeyLeftAlt :: ImguiKey where "KeyLeftAlt = ImguiKey ''KeyLeftAlt''"
definition KeyLeftSuper :: ImguiKey where "KeyLeftSuper = ImguiKey ''KeyLeftSuper''"
definition KeyRightCtrl :: ImguiKey where "KeyRightCtrl = ImguiKey ''KeyRightCtrl''"
definition KeyRightShift :: ImguiKey where "KeyRightShift = ImguiKey ''KeyRightShift''"
definition KeyRightAlt :: ImguiKey where "KeyRightAlt = ImguiKey ''KeyRightAlt''"
definition KeyRightSuper :: ImguiKey where "KeyRightSuper = ImguiKey ''KeyRightSuper''"
definition KeyMenu :: ImguiKey where "KeyMenu = ImguiKey ''KeyMenu''"
definition Key0 :: ImguiKey where "Key0 = ImguiKey ''Key0''"
definition Key1 :: ImguiKey where "Key1 = ImguiKey ''Key1''"
definition Key2 :: ImguiKey where "Key2 = ImguiKey ''Key2''"
definition Key3 :: ImguiKey where "Key3 = ImguiKey ''Key3''"
definition Key4 :: ImguiKey where "Key4 = ImguiKey ''Key4''"
definition Key5 :: ImguiKey where "Key5 = ImguiKey ''Key5''"
definition Key6 :: ImguiKey where "Key6 = ImguiKey ''Key6''"
definition Key7 :: ImguiKey where "Key7 = ImguiKey ''Key7''"
definition Key8 :: ImguiKey where "Key8 = ImguiKey ''Key8''"
definition Key9 :: ImguiKey where "Key9 = ImguiKey ''Key9''"
definition KeyA :: ImguiKey where "KeyA = ImguiKey ''KeyA''"
definition KeyB :: ImguiKey where "KeyB = ImguiKey ''KeyB''"
definition KeyC :: ImguiKey where "KeyC = ImguiKey ''KeyC''"
definition KeyD :: ImguiKey where "KeyD = ImguiKey ''KeyD''"
definition KeyE :: ImguiKey where "KeyE = ImguiKey ''KeyE''"
definition KeyF :: ImguiKey where "KeyF = ImguiKey ''KeyF''"
definition KeyG :: ImguiKey where "KeyG = ImguiKey ''KeyG''"
definition KeyH :: ImguiKey where "KeyH = ImguiKey ''KeyH''"
definition KeyI :: ImguiKey where "KeyI = ImguiKey ''KeyI''"
definition KeyJ :: ImguiKey where "KeyJ = ImguiKey ''KeyJ''"
definition KeyK :: ImguiKey where "KeyK = ImguiKey ''KeyK''"
definition KeyL :: ImguiKey where "KeyL = ImguiKey ''KeyL''"
definition KeyM :: ImguiKey where "KeyM = ImguiKey ''KeyM''"
definition KeyN :: ImguiKey where "KeyN = ImguiKey ''KeyN''"
definition KeyO :: ImguiKey where "KeyO = ImguiKey ''KeyO''"
definition KeyP :: ImguiKey where "KeyP = ImguiKey ''KeyP''"
definition KeyQ :: ImguiKey where "KeyQ = ImguiKey ''KeyQ''"
definition KeyR :: ImguiKey where "KeyR = ImguiKey ''KeyR''"
definition KeyS :: ImguiKey where "KeyS = ImguiKey ''KeyS''"
definition KeyT :: ImguiKey where "KeyT = ImguiKey ''KeyT''"
definition KeyU :: ImguiKey where "KeyU = ImguiKey ''KeyU''"
definition KeyV :: ImguiKey where "KeyV = ImguiKey ''KeyV''"
definition KeyW :: ImguiKey where "KeyW = ImguiKey ''KeyW''"
definition KeyX :: ImguiKey where "KeyX = ImguiKey ''KeyX''"
definition KeyY :: ImguiKey where "KeyY = ImguiKey ''KeyY''"
definition KeyZ :: ImguiKey where "KeyZ = ImguiKey ''KeyZ''"
definition KeyF1 :: ImguiKey where "KeyF1 = ImguiKey ''KeyF1''"
definition KeyF2 :: ImguiKey where "KeyF2 = ImguiKey ''KeyF2''"
definition KeyF3 :: ImguiKey where "KeyF3 = ImguiKey ''KeyF3''"
definition KeyF4 :: ImguiKey where "KeyF4 = ImguiKey ''KeyF4''"
definition KeyF5 :: ImguiKey where "KeyF5 = ImguiKey ''KeyF5''"
definition KeyF6 :: ImguiKey where "KeyF6 = ImguiKey ''KeyF6''"
definition KeyF7 :: ImguiKey where "KeyF7 = ImguiKey ''KeyF7''"
definition KeyF8 :: ImguiKey where "KeyF8 = ImguiKey ''KeyF8''"
definition KeyF9 :: ImguiKey where "KeyF9 = ImguiKey ''KeyF9''"
definition KeyF10 :: ImguiKey where "KeyF10 = ImguiKey ''KeyF10''"
definition KeyF11 :: ImguiKey where "KeyF11 = ImguiKey ''KeyF11''"
definition KeyF12 :: ImguiKey where "KeyF12 = ImguiKey ''KeyF12''"
definition KeyF13 :: ImguiKey where "KeyF13 = ImguiKey ''KeyF13''"
definition KeyF14 :: ImguiKey where "KeyF14 = ImguiKey ''KeyF14''"
definition KeyF15 :: ImguiKey where "KeyF15 = ImguiKey ''KeyF15''"
definition KeyF16 :: ImguiKey where "KeyF16 = ImguiKey ''KeyF16''"
definition KeyF17 :: ImguiKey where "KeyF17 = ImguiKey ''KeyF17''"
definition KeyF18 :: ImguiKey where "KeyF18 = ImguiKey ''KeyF18''"
definition KeyF19 :: ImguiKey where "KeyF19 = ImguiKey ''KeyF19''"
definition KeyF20 :: ImguiKey where "KeyF20 = ImguiKey ''KeyF20''"
definition KeyF21 :: ImguiKey where "KeyF21 = ImguiKey ''KeyF21''"
definition KeyF22 :: ImguiKey where "KeyF22 = ImguiKey ''KeyF22''"
definition KeyF23 :: ImguiKey where "KeyF23 = ImguiKey ''KeyF23''"
definition KeyF24 :: ImguiKey where "KeyF24 = ImguiKey ''KeyF24''"
definition KeyAppBack :: ImguiKey where "KeyAppBack = ImguiKey ''KeyAppBack''"
definition KeyAppForward :: ImguiKey where "KeyAppForward = ImguiKey ''KeyAppForward''"
definition KeyGraveAccent :: ImguiKey where "KeyGraveAccent = ImguiKey ''KeyGraveAccent''"
definition KeyMinus :: ImguiKey where "KeyMinus = ImguiKey ''KeyMinus''"
definition KeyEqual :: ImguiKey where "KeyEqual = ImguiKey ''KeyEqual''"
definition KeyLeftBracket :: ImguiKey where "KeyLeftBracket = ImguiKey ''KeyLeftBracket''"
definition KeyRightBracket :: ImguiKey where "KeyRightBracket = ImguiKey ''KeyRightBracket''"
definition KeyOem102 :: ImguiKey where "KeyOem102 = ImguiKey ''KeyOem102''"
definition KeyBackslash :: ImguiKey where "KeyBackslash = ImguiKey ''KeyBackslash''"
definition KeyApostrophe :: ImguiKey where "KeyApostrophe = ImguiKey ''KeyApostrophe''"
definition KeySlash :: ImguiKey where "KeySlash = ImguiKey ''KeySlash''"
definition KeyModCtrl :: ImguiKey where "KeyModCtrl = ImguiKey ''KeyModCtrl''"
definition KeyModShift :: ImguiKey where "KeyModShift = ImguiKey ''KeyModShift''"
definition KeyModAlt :: ImguiKey where "KeyModAlt = ImguiKey ''KeyModAlt''"
definition KeyModSuper :: ImguiKey where "KeyModSuper = ImguiKey ''KeyModSuper''"

text \<open>
  The calls that the platforms and the renderer make on \<^verbatim>\<open>imgui.IO\<close> (and on its
  font atlas). The IO object is represented by the list of calls received, in order, and
  by the values the code reads back or overwrites: the backend flags, and the texture
  identifier and the image (width, height, pixels) of the font atlas.
\<close>

datatype io_call =
    SetDisplaySize float32 float32
  | SetDeltaTime float32
  | SetMousePosition float32 float32
  | SetMouseButtonDown nat bool
  | AddMouseWheelDelta float32 float32
  | AddInputCharacters string
  | AddKeyEvent ImguiKey bool
  | SetBackendFlags int32
  | FontsSetTextureID uintptr

type_synonym pointer = nat

record imgui_IO =
  io_calls :: "io_call list"
  BackendFlags :: int32
  FontsTextureID :: uintptr
  FontsTextureDataAlpha8 :: "int \<times> int \<times> pointer"

definition io_call :: "io_call \<Rightarrow> imgui_IO \<Rightarrow> imgui_IO" where
  "io_call c io = io\<lparr>io_calls := io_calls io @ [c]\<rparr>"

text \<open>
  Constants of package \<^verbatim>\<open>platforms\<close> shared by both platforms. They are declared
  in a file of the package that is not among the sources: the indices of the three mouse
  buttons in the arrays \<^verbatim>\<open>buttonsDown\<close> and \<^verbatim>\<open>mouseJustPressed\<close>, and the size of
  these arrays. No statement below depends on their values.
\<close>

definition mouseButtonPrimary :: nat where "mouseButtonPrimary = 0"
definition mouseButtonSecondary :: nat where "mouseButtonSecondary = 1"
definition mouseButtonTertiary :: nat where "mouseButtonTertiary = 2"
definition mouseButtonCount :: nat where "mouseButtonCount = 3"

section \<open>The SDL2 platform (\<^verbatim>\<open>internal/platforms/sdl.go\<close>)\<close>

subsection \<open>Key codes and scancodes of SDL2\<close>

text \<open>
  \<^verbatim>\<open>sdl.Keycode\<close> is a 32-bit integer and \<^verbatim>\<open>sdl.Scancode\<close> a 32-bit unsigned
  integer. The constants have the values of SDL2's \<^verbatim>\<open>SDL_keycode.h\<close> and
  \<^verbatim>\<open>SDL_scancode.h\<close>: a key code is the character the key produces or, for keys
  without a character, the scancode with bit 30 set.
\<close>

type_synonym Keycode = "32 word"
type_synonym Scancode = "32 word"

definition K_TAB :: Keycode where "K_TAB = 9"
definition K_LEFT :: Keycode where "K_LEFT = 0x40000050"
definition K_RIGHT :: Keycode where "K_RIGHT = 0x4000004F"
definition K_UP :: Keycode where "K_UP = 0x40000052"
definition K_DOWN :: Keycode where "K_DOWN = 0x40000051"
definition K_PAGEUP :: Keycode where "K_PAGEUP = 0x4000004B"
definition K_PAGEDOWN :: Keycode where "K_PAGEDOWN = 0x4000004E"
definition K_HOME :: Keycode where "K_HOME = 0x4000004A"
definition K_END :: Keycode where "K_END = 0x4000004D"
definition K_INSERT :: Keycode where "K_INSERT = 0x40000049"
definition K_DELETE :: Keycode where "K_DELETE = 127"
definition K_BACKSPACE :: Keycode where "K_BACKSPACE = 8"
definition K_SPACE :: Keycode where "K_SPACE = 32"
definition K_RETURN :: Keycode where "K_RETURN = 13"
definition K_ESCAPE :: Keycode where "K_ESCAPE = 27"
definition K_COMMA :: Keycode where "K_COMMA = 44"
definition K_PERIOD :: Keycode where "K_PERIOD = 46"
definition K_SEMICOLON :: Keycode where "K_SEMICOLON = 59"
definition K_CAPSLOCK :: Keycode where "K_CAPSLOCK = 0x40000039"
definition K_SCROLLLOCK :: Keycode where "K_SCROLLLOCK = 0x40000047"
definition K_NUMLOCKCLEAR :: Keycode where "K_NUMLOCKCLEAR = 0x40000053"
definition K_PRINTSCREEN :: Keycode where "K_PRINTSCREEN = 0x40000046"
definition K_PAUSE :: Keycode where "K_PAUSE = 0x40000048"
definition K_KP_0 :: Keycode where "K_KP_0 = 0x40000062"
definition K_KP_1 :: Keycode where "K_KP_1 = 0x40000059"
definition K_KP_2 :: Keycode where "K_KP_2 = 0x4000005A"
definition K_KP_3 :: Keycode where "K_KP_3 = 0x4000005B"
definition K_KP_4 :: Keycode where "K_KP_4 = 0x4000005C"
definition K_KP_5 :: Keycode where "K_KP_5 = 0x4000005D"
definition K_KP_6 :: Keycode where "K_KP_6 = 0x4000005E"
definition K_KP_7 :: Keycode where "K_KP_7 = 0x4000005F"
definition K_KP_8 :: Keycode where "K_KP_8 = 0x40000060"
definition K_KP_9 :: Keycode where "K_KP_9 = 0x40000061"
definition K_KP_PERIOD :: Keycode where "K_KP_PERIOD = 0x40000063"
definition K_KP_DIVIDE :: Keycode where "K_KP_DIVIDE = 0x40000054"
definition K_KP_MULTIPLY :: Keycode where "K_KP_MULTIPLY = 0x40000055"
definition K_KP_MINUS :: Keycode where "K_KP_MINUS = 0x40000056"
definition K_KP_PLUS :: Keycode where "K_KP_PLUS = 0x40000057"
definition K_KP_ENTER :: Keycode where "K_KP_ENTER = 0x40000058"
definition K_KP_EQUALS :: Keycode where "K_KP_EQUALS = 0x40000067"
definition K_LCTRL :: Keycode where "K_LCTRL = 0x400000E0"
definition K_LSHIFT :: Keycode where "K_LSHIFT = 0x400000E1"
definition K_LALT :: Keycode where "K_LALT = 0x400000E2"
definition K_LGUI :: Keycode where "K_LGUI = 0x400000E3"
definition K_RCTRL :: Keycode where "K_RCTRL = 0x400000E4"
definition K_RSHIFT :: Keycode where "K_RSHIFT = 0x400000E5"
definition K_RALT :: Keycode where "K_RALT = 0x400000E6"
definition K_RGUI :: Keycode where "K_RGUI = 0x400000E7"
definition K_APPLICATION :: Keycode where "K_APPLICATION = 0x40000065"
definition K_0 :: Keycode where "K_0 = 48"
definition K_1 :: Keycode where "K_1 = 49"
definition K_2 :: Keycode where "K_2 = 50"
definition K_3 :: Keycode where "K_3 = 51"
definition K_4 :: Keycode where "K_4 = 52"
definition K_5 :: Keycode where "K_5 = 53"
definition K_6 :: Keycode where "K_6 = 54"
definition K_7 :: Keycode where "K_7 = 55"
definition K_8 :: Keycode where "K_8 = 56"
definition K_9 :: Keycode where "K_9 = 57"
definition K_a :: Keycode where "K_a = 97"
definition K_b :: Keycode where "K_b = 98"
definition K_c :: Keycode where "K_c = 99"
definition K_d :: Keycode where "K_d = 100"
definition K_e :: Keycode where "K_e = 101"
definition K_f :: Keycode where "K_f = 102"
definition K_g :: Keycode where "K_g = 103"
definition K_h :: Keycode where "K_h = 104"
definition K_i :: Keycode where "K_i = 105"
definition K_j :: Keycode where "K_j = 106"
definition K_k :: Keycode where "K_k = 107"
definition K_l :: Keycode where "K_l = 108"
definition K_m :: Keycode where "K_m = 109"
definition K_n :: Keycode where "K_n = 110"
definition K_o :: Keycode where "K_o = 111"
definition K_p :: Keycode where "K_p = 112"
definition K_q :: Keycode where "K_q = 113"
definition K_r :: Keycode where "K_r = 114"
definition K_s :: Keycode where "K_s = 115"
definition K_t :: Keycode where "K_t = 116"
definition K_u :: Keycode where "K_u = 117"
definition K_v :: Keycode where "K_v = 118"
definition K_w :: Keycode where "K_w = 119"
definition K_x :: Keycode where "K_x = 120"
definition K_y :: Keycode where "K_y = 121"
definition K_z :: Keycode where "K_z = 122"
definition K_F1 :: Keycode where "K_F1 = 0x4000003A"
definition K_F2 :: Keycode where "K_F2 = 0x4000003B"
definition K_F3 :: Keycode where "K_F3 = 0x4000003C"
definition K_F4 :: Keycode where "K_F4 = 0x4000003D"
definition K_F5 :: Keycode where "K_F5 = 0x4000003E"
definition K_F6 :: Keycode where "K_F6 = 0x4000003F"
definition K_F7 :: Keycode where "K_F7 = 0x40000040"
definition K_F8 :: Keycode where "K_F8 = 0x40000041"
definition K_F9 :: Keycode where "K_F9 = 0x40000042"
definition K_F10 :: Keycode where "K_F10 = 0x40000043"
definition K_F11 :: Keycode where "K_F11 = 0x40000044"
definition K_F12 :: Keycode where "K_F12 = 0x40000045"
definition K_F13 :: Keycode where "K_F13 = 0x40000068"
definition K_F14 :: Keycode where "K_F14 = 0x40000069"
definition K_F15 :: Keycode where "K_F15 = 0x4000006A"
definition K_F16 :: Keycode where "K_F16 = 0x4000006B"
definition K_F17 :: Keycode where "K_F17 = 0x4000006C"
definition K_F18 :: Keycode where "K_F18 = 0x4000006D"
definition K_F19 :: Keycode where "K_F19 = 0x4000006E"
definition K_F20 :: Keycode where "K_F20 = 0x4000006F"
definition K_F21 :: Keycode where "K_F21 = 0x40000070"
definition K_F22 :: Keycode where "K_F22 = 0x40000071"
definition K_F23 :: Keycode where "K_F23 = 0x40000072"
definition K_F24 :: Keycode where "K_F24 = 0x40000073"
definition K_AC_BACK :: Keycode where "K_AC_BACK = 0x4000010E"
definition K_AC_FORWARD :: Keycode where "K_AC_FORWARD = 0x4000010F"
definition K_MINUS :: Keycode where "K_MINUS = 45"

definition SCANCODE_GRAVE :: Scancode where "SCANCODE_GRAVE = 53"
definition SCANCODE_MINUS :: Scancode where "SCANCODE_MINUS = 45"
definition SCANCODE_EQUALS :: Scancode where "SCANCODE_EQUALS = 46"
definition SCANCODE_LEFTBRACKET :: Scancode where "SCANCODE_LEFTBRACKET = 47"
definition SCANCODE_RIGHTBRACKET :: Scancode where "SCANCODE_RIGHTBRACKET = 48"
definition SCANCODE_NONUSBACKSLASH :: Scancode where "SCANCODE_NONUSBACKSLASH = 100"
definition SCANCODE_BACKSLASH :: Scancode where "SCANCODE_BACKSLASH = 49"
definition SCANCODE_SEMICOLON :: Scancode where "SCANCODE_SEMICOLON = 51"
definition SCANCODE_APOSTROPHE :: Scancode where "SCANCODE_APOSTROPHE = 52"
definition SCANCODE_COMMA :: Scancode where "SCANCODE_COMMA = 54"
definition SCANCODE_PERIOD :: Scancode where "SCANCODE_PERIOD = 55"
definition SCANCODE_SLASH :: Scancode where "SCANCODE_SLASH = 56"

text \<open>
  The two \<^verbatim>\<open>switch\<close> statements of \<^verbatim>\<open>sdl2KeyEventToImguiKey\<close>, one pair for
  each \<^verbatim>\<open>case\<close>, in source order. The cases that the source has commented out
  (\<^verbatim>\<open>K_QUOTE\<close>, \<^verbatim>\<open>K_MINUS\<close>, \<^verbatim>\<open>K_SLASH\<close>, \<^verbatim>\<open>K_EQUALS\<close>, the brackets,
  \<^verbatim>\<open>K_BACKSLASH\<close>, \<^verbatim>\<open>K_BACKQUOTE\<close>) are not cases.
\<close>

definition sdl2_keycode_cases :: "(Keycode \<times> ImguiKey) list" where
  "sdl2_keycode_cases =
    [(K_TAB, KeyTab), (K_LEFT, KeyLeftArrow), (K_RIGHT, KeyRightArrow), (K_UP, KeyUpArrow),
     (K_DOWN, KeyDownArrow), (K_PAGEUP, KeyPageUp), (K_PAGEDOWN, KeyPageDown), (K_HOME, KeyHome),
     (K_END, KeyEnd), (K_INSERT, KeyInsert), (K_DELETE, KeyDelete), (K_BACKSPACE, KeyBackspace),
     (K_SPACE, KeySpace), (K_RETURN, KeyEnter), (K_ESCAPE, KeyEscape), (K_COMMA, KeyComma),
     (K_PERIOD, KeyPeriod), (K_SEMICOLON, KeySemicolon), (K_CAPSLOCK, KeyCapsLock),
     (K_SCROLLLOCK, KeyScrollLock), (K_NUMLOCKCLEAR, KeyNumLock), (K_PRINTSCREEN, KeyPrintScreen),
     (K_PAUSE, KeyPause), (K_KP_0, KeyKeypad0), (K_KP_1, KeyKeypad1), (K_KP_2, KeyKeypad2),
     (K_KP_3, KeyKeypad3), (K_KP_4, KeyKeypad4), (K_KP_5, KeyKeypad5), (K_KP_6, KeyKeypad6),
     (K_KP_7, KeyKeypad7), (K_KP_8, KeyKeypad8), (K_KP_9, KeyKeypad9),
     (K_KP_PERIOD, KeyKeypadDecimal), (K_KP_DIVIDE, KeyKeypadDivide),
     (K_KP_MULTIPLY, KeyKeypadMultiply), (K_KP_MINUS, KeyKeypadSubtract),
     (K_KP_PLUS, KeyKeypadAdd), (K_KP_ENTER, KeyKeypadEnter), (K_KP_EQUALS, KeyKeypadEqual),
     (K_LCTRL, KeyLeftCtrl), (K_LSHIFT, KeyLeftShift), (K_LALT, KeyLeftAlt),
     (K_LGUI, KeyLeftSuper), (K_RCTRL, KeyRightCtrl), (K_RSHIFT, KeyRightShift),
     (K_RALT, KeyRightAlt), (K_RGUI, KeyRightSuper), (K_APPLICATION, KeyMenu), (K_0, Key0),
     (K_1, Key1), (K_2, Key2), (K_3, Key3), (K_4, Key4), (K_5, Key5), (K_6, Key6), (K_7, Key7),
     (K_8, Key8), (K_9, Key9), (K_a, KeyA), (K_b, KeyB), (K_c, KeyC), (K_d, KeyD), (K_e, KeyE),
     (K_f, KeyF), (K_g, KeyG), (K_h, KeyH), (K_i, KeyI), (K_j, KeyJ), (K_k, KeyK), (K_l, KeyL),
     (K_m, KeyM), (K_n, KeyN), (K_o, KeyO), (K_p, KeyP), (K_q, KeyQ), (K_r, KeyR), (K_s, KeyS),
     (K_t, KeyT), (K_u, KeyU), (K_v, KeyV), (K_w, KeyW), (K_x, KeyX), (K_y, KeyY), (K_z, KeyZ),
     (K_F1, KeyF1), (K_F2, KeyF2), (K_F3, KeyF3), (K_F4, KeyF4), (K_F5, KeyF5), (K_F6, KeyF6),
     (K_F7, KeyF7), (K_F8, KeyF8), (K_F9, KeyF9), (K_F10, KeyF10), (K_F11, KeyF11),
     (K_F12, KeyF12), (K_F13, KeyF13), (K_F14, KeyF14), (K_F15, KeyF15), (K_F16, KeyF16),
     (K_F17, KeyF17), (K_F18, KeyF18), (K_F19, KeyF19), (K_F20, KeyF20), (K_F21, KeyF21),
     (K_F22, KeyF22), (K_F23, KeyF23), (K_F24, KeyF24), (K_AC_BACK, KeyAppBack),
     (K_AC_FORWARD, KeyAppForward)]"

definition sdl2_scancode_cases :: "(Scancode \<times> ImguiKey) list" where
  "sdl2_scancode_cases =
    [(SCANCODE_GRAVE, KeyGraveAccent), (SCANCODE_MINUS, KeyMinus), (SCANCODE_EQUALS, KeyEqual),
     (SCANCODE_LEFTBRACKET, KeyLeftBracket), (SCANCODE_RIGHTBRACKET, KeyRightBracket),
     (SCANCODE_NONUSBACKSLASH, KeyOem102), (SCANCODE_BACKSLASH, KeyBackslash),
     (SCANCODE_SEMICOLON, KeySemicolon), (SCANCODE_APOSTROPHE, KeyApostrophe),
     (SCANCODE_COMMA, KeyComma), (SCANCODE_PERIOD, KeyPeriod), (SCANCODE_SLASH, KeySlash)]"

definition sdl2KeyEventToImguiKey :: "Keycode \<Rightarrow> Scancode \<Rightarrow> ImguiKey" where
  "sdl2KeyEventToImguiKey keycode scancode =
     (case go_switch sdl2_keycode_cases keycode of
        Some k \<Rightarrow> k
      | None \<Rightarrow>
          \<comment> \<open>Fallback to scancode\<close>
          (case go_switch sdl2_scancode_cases scancode of
             Some k \<Rightarrow> k
           | None \<Rightarrow> KeyNone))"

text \<open>The key codes, and the scancodes, that have a \<^verbatim>\<open>case\<close>.\<close>

definition sdl2_mapped_keycodes :: "Keycode list" where
  "sdl2_mapped_keycodes = map fst sdl2_keycode_cases"

definition sdl2_fallback_scancodes :: "Scancode list" where
  "sdl2_fallback_scancodes = map fst sdl2_scancode_cases"

subsection \<open>The SDL2 library\<close>

text \<open>
  Windows and OpenGL contexts are identified by a number. The events are those that
  \<^verbatim>\<open>processEvent\<close> distinguishes, with the fields it reads; every other event type is
  \<open>OtherEvent\<close>.
\<close>

type_synonym Window = nat
type_synonym GLContext = nat

datatype sdl_event =
    QUIT
  | MOUSEWHEEL int32 int32
  | MOUSEBUTTONDOWN uint8
  | TEXTINPUT string
  | KEYDOWN Keycode Scancode uint16
  | KEYUP Keycode Scancode uint16
  | OtherEvent uint32

definition BUTTON_LEFT :: uint8 where "BUTTON_LEFT = 1"
definition BUTTON_MIDDLE :: uint8 where "BUTTON_MIDDLE = 2"
definition BUTTON_RIGHT :: uint8 where "BUTTON_RIGHT = 3"

definition KMOD_CTRL :: uint16 where "KMOD_CTRL = 0x00C0"
definition KMOD_SHIFT :: uint16 where "KMOD_SHIFT = 0x0003"
definition KMOD_ALT :: uint16 where "KMOD_ALT = 0x0300"
definition KMOD_GUI :: uint16 where "KMOD_GUI = 0x0C00"

text \<open>\<^verbatim>\<open>sdl.Button(b)\<close> is the mask \<^verbatim>\<open>1 << (b - 1)\<close> of a button in the mouse state.\<close>

definition sdl_Button :: "uint32 \<Rightarrow> uint32" where
  "sdl_Button b = push_bit (unat (b - 1)) 1"

datatype GLattr =
    GL_CONTEXT_MAJOR_VERSION | GL_CONTEXT_MINOR_VERSION | GL_CONTEXT_FLAGS
  | GL_CONTEXT_PROFILE_MASK | GL_DOUBLEBUFFER | GL_DEPTH_SIZE | GL_STENCIL_SIZE

definition GL_CONTEXT_FORWARD_COMPATIBLE_FLAG :: int where
  "GL_CONTEXT_FORWARD_COMPATIBLE_FLAG = 2"
definition GL_CONTEXT_PROFILE_CORE :: int where
  "GL_CONTEXT_PROFILE_CORE = 1"

datatype sdl_call =
    sdl_Init
  | sdl_Quit
  | sdl_CreateWindow string
  | sdl_Window_Destroy Window
  | sdl_GLSetAttribute GLattr int
  | sdl_GLCreateContext Window
  | sdl_GLMakeCurrent Window GLContext
  | sdl_GLDeleteContext GLContext
  | sdl_GLSetSwapInterval int
  | sdl_GLSwap "Window option"
  | sdl_SetClipboardText string

text \<open>
  The state of the SDL2 library and of the IO object, as far as the platform touches it.
  \<open>initialised\<close>, \<open>windows\<close> (the live windows) and \<open>gl_contexts\<close> (the live OpenGL
  contexts) are the resources. SDL keeps the list of its windows and destroys them when it
  shuts down; it keeps no list of OpenGL contexts: a context lives until
  \<^verbatim>\<open>SDL_GL_DeleteContext\<close>. \<open>sdl_calls\<close> records the calls issued.
  The remaining fields are what the library will answer: the results of the four calls
  of \<^verbatim>\<open>NewSDL\<close> that can fail, the queue of pending events, and the values that
  \<^verbatim>\<open>NewFrame\<close> and the size queries read.
\<close>

record sdl_world =
  initialised :: bool
  windows :: "Window list"
  gl_contexts :: "GLContext list"
  sdl_calls :: "sdl_call list"
  io :: imgui_IO
  Init_result :: "go_error option"
  CreateWindow_result :: "go_error + Window"
  GLCreateContext_result :: "go_error + GLContext"
  GLMakeCurrent_result :: "go_error option"
  pending_events :: "sdl_event list"
  window_size :: "int32 \<times> int32"
  drawable_size :: "int32 \<times> int32"
  performance_frequency :: uint64
  performance_counter :: uint64
  mouse_state :: "int32 \<times> int32 \<times> uint32"
  clipboard_text :: "string \<times> go_error option"

definition sdl_log :: "sdl_call \<Rightarrow> sdl_world \<Rightarrow> sdl_world" where
  "sdl_log c w = w\<lparr>sdl_calls := sdl_calls w @ [c]\<rparr>"

definition Init :: "sdl_world \<Rightarrow> go_error option \<times> sdl_world" where
  "Init w =
     (case Init_result w of
        Some err \<Rightarrow> (Some err, sdl_log sdl_Init w)
      | None \<Rightarrow> (None, (sdl_log sdl_Init w)\<lparr>initialised := True\<rparr>))"

definition Quit :: "sdl_world \<Rightarrow> sdl_world" where
  "Quit w = (sdl_log sdl_Quit w)\<lparr>initialised := False, windows := []\<rparr>"

definition CreateWindow :: "string \<Rightarrow> sdl_world \<Rightarrow> (go_error + Window) \<times> sdl_world" where
  "CreateWindow title w =
     (case CreateWindow_result w of
        Inl err \<Rightarrow> (Inl err, sdl_log (sdl_CreateWindow title) w)
      | Inr win \<Rightarrow> (Inr win, (sdl_log (sdl_CreateWindow title) w)\<lparr>windows := win # windows w\<rparr>))"

definition Window_Destroy :: "Window \<Rightarrow> sdl_world \<Rightarrow> sdl_world" where
  "Window_Destroy win w = (sdl_log (sdl_Window_Destroy win) w)\<lparr>windows := removeAll win (windows w)\<rparr>"

definition GLSetAttribute :: "GLattr \<Rightarrow> int \<Rightarrow> sdl_world \<Rightarrow> sdl_world" where
  "GLSetAttribute attr v w = sdl_log (sdl_GLSetAttribute attr v) w"

definition GLCreateContext :: "Window \<Rightarrow> sdl_world \<Rightarrow> (go_error + GLContext) \<times> sdl_world" where
  "GLCreateContext win w =
     (case GLCreateContext_result w of
        Inl err \<Rightarrow> (Inl err, sdl_log (sdl_GLCreateContext win) w)
      | Inr ctx \<Rightarrow>
          (Inr ctx, (sdl_log (sdl_GLCreateContext win) w)\<lparr>gl_contexts := ctx # gl_contexts w\<rparr>))"

definition GLMakeCurrent :: "Window \<Rightarrow> GLContext \<Rightarrow> sdl_world \<Rightarrow> go_error option \<times> sdl_world" where
  "GLMakeCurrent win ctx w = (GLMakeCurrent_result w, sdl_log (sdl_GLMakeCurrent win ctx) w)"

definition GLDeleteContext :: "GLContext \<Rightarrow> sdl_world \<Rightarrow> sdl_world" where
  "GLDeleteContext ctx w =
     (sdl_log (sdl_GLDeleteContext ctx) w)\<lparr>gl_contexts := removeAll ctx (gl_contexts w)\<rparr>"

definition GLSetSwapInterval :: "int \<Rightarrow> sdl_world \<Rightarrow> sdl_world" where
  "GLSetSwapInterval n w = sdl_log (sdl_GLSetSwapInterval n) w"

definition PollEvent :: "sdl_world \<Rightarrow> sdl_event option \<times> sdl_world" where
  "PollEvent w =
     (case pending_events w of
        [] \<Rightarrow> (None, w)
      | e # es \<Rightarrow> (Some e, w\<lparr>pending_events := es\<rparr>))"

definition sdl_io :: "io_call \<Rightarrow> sdl_world \<Rightarrow> sdl_world" where
  "sdl_io c w = w\<lparr>io := io_call c (io w)\<rparr>"

subsection \<open>The platform\<close>

type_synonym SDLClientAPI = string

definition SDLClientAPIOpenGL2 :: SDLClientAPI where "SDLClientAPIOpenGL2 = ''OpenGL2''"
definition SDLClientAPIOpenGL3 :: SDLClientAPI where "SDLClientAPIOpenGL3 = ''OpenGL3''"

text \<open>
  The struct \<^verbatim>\<open>SDL\<close>. Its field \<^verbatim>\<open>imguiIO\<close> is a handle on the IO object, whose state
  is \<^const>\<open>io\<close> of the world; \<^verbatim>\<open>window\<close> is a pointer, \<^const>\<open>None\<close> when
  \<^verbatim>\<open>nil\<close>. A method takes and returns the pair of the struct and the world.
\<close>

record SDL =
  window :: "Window option"
  shouldStop :: bool
  time :: uint64
  buttonsDown :: "bool list"

definition Dispose :: "SDL \<times> sdl_world \<Rightarrow> SDL \<times> sdl_world" where
  "Dispose pw =
     (case pw of (platform, w) \<Rightarrow>
        (case window platform of
           Some win \<Rightarrow> (platform\<lparr>window := None\<rparr>, Quit (Window_Destroy win w))
         | None \<Rightarrow> (platform, Quit w)))"

text \<open>
  \<^verbatim>\<open>NewSDL\<close> returns the pair \<^verbatim>\<open>(*SDL, error)\<close> and the world it leaves.
  \<^verbatim>\<open>runtime.LockOSThread\<close> has no effect on the modelled state. The window
  dimensions are constants of the package that do not matter here.
\<close>

definition NewSDL_context ::
    "SDL \<Rightarrow> Window \<Rightarrow> sdl_world \<Rightarrow> (SDL option \<times> go_error option) \<times> sdl_world" where
  "NewSDL_context platform win w =
     (let w = GLSetAttribute GL_DOUBLEBUFFER 1 w;
          w = GLSetAttribute GL_DEPTH_SIZE 24 w;
          w = GLSetAttribute GL_STENCIL_SIZE 8 w
      in case GLCreateContext win w of
           (Inl err, w) \<Rightarrow>
             ((None, Some (Errorf ''failed to create OpenGL context: '' err)),
              snd (Dispose (platform, w)))
         | (Inr glContext, w) \<Rightarrow>
             (case GLMakeCurrent win glContext w of
                (Some err, w) \<Rightarrow>
                  ((None, Some (Errorf ''failed to set current OpenGL context: '' err)),
                   snd (Dispose (platform, w)))
              | (None, w) \<Rightarrow>
                  ((Some platform, None), GLSetSwapInterval 1 w)))"

definition NewSDL ::
    "SDLClientAPI \<Rightarrow> sdl_world \<Rightarrow> (SDL option \<times> go_error option) \<times> sdl_world" where
  "NewSDL clientAPI w =
     (case Init w of
        (Some err, w) \<Rightarrow> ((None, Some (Errorf ''failed to initialize SDL2: '' err)), w)
      | (None, w) \<Rightarrow>
          (case CreateWindow (''ImGui-Go SDL2+'' @ clientAPI @ '' example'') w of
             (Inl err, w) \<Rightarrow>
               ((None, Some (Errorf ''failed to create window: '' err)), Quit w)
           | (Inr win, w) \<Rightarrow>
               (let platform = \<lparr>window = Some win, shouldStop = False, time = 0,
                                 buttonsDown = replicate mouseButtonCount False\<rparr>
                in if clientAPI = SDLClientAPIOpenGL2 then
                     NewSDL_context platform win
                       (GLSetAttribute GL_CONTEXT_MINOR_VERSION 1
                         (GLSetAttribute GL_CONTEXT_MAJOR_VERSION 2 w))
                   else if clientAPI = SDLClientAPIOpenGL3 then
                     NewSDL_context platform win
                       (GLSetAttribute GL_CONTEXT_PROFILE_MASK GL_CONTEXT_PROFILE_CORE
                         (GLSetAttribute GL_CONTEXT_FLAGS GL_CONTEXT_FORWARD_COMPATIBLE_FLAG
                           (GLSetAttribute GL_CONTEXT_MINOR_VERSION 2
                             (GLSetAttribute GL_CONTEXT_MAJOR_VERSION 3 w))))
                   else
                     ((None, Some ErrUnsupportedClientAPI), snd (Dispose (platform, w))))))"

definition ShouldStop :: "SDL \<Rightarrow> bool" where
  "ShouldStop platform = shouldStop platform"

text \<open>
  The size queries read what SDL answers for the window; for a \<^verbatim>\<open>nil\<close> window SDL
  reports an error and the binding returns zeros.
\<close>

definition DisplaySize :: "SDL \<times> sdl_world \<Rightarrow> float32 \<times> float32" where
  "DisplaySize pw =
     (case pw of (platform, w) \<Rightarrow>
        (case (case window platform of Some win \<Rightarrow> window_size w | None \<Rightarrow> (0, 0)) of
           (w', h) \<Rightarrow> (float32_of_int32 w', float32_of_int32 h)))"

definition FramebufferSize :: "SDL \<times> sdl_world \<Rightarrow> float32 \<times> float32" where
  "FramebufferSize pw =
     (case pw of (platform, w) \<Rightarrow>
        (case (case window platform of Some win \<Rightarrow> drawable_size w | None \<Rightarrow> (0, 0)) of
           (w', h) \<Rightarrow> (float32_of_int32 w', float32_of_int32 h)))"

definition sdl2SetImguiModKey :: "uint16 \<Rightarrow> sdl_world \<Rightarrow> sdl_world" where
  "sdl2SetImguiModKey mods w =
     (let w = sdl_io (AddKeyEvent KeyModCtrl (mods AND KMOD_CTRL \<noteq> 0)) w;
          w = sdl_io (AddKeyEvent KeyModShift (mods AND KMOD_SHIFT \<noteq> 0)) w;
          w = sdl_io (AddKeyEvent KeyModAlt (mods AND KMOD_ALT \<noteq> 0)) w;
          w = sdl_io (AddKeyEvent KeyModSuper (mods AND KMOD_GUI \<noteq> 0)) w
      in w)"

text \<open>
  \<^verbatim>\<open>processEvent\<close>. In the \<^verbatim>\<open>MOUSEWHEEL\<close> case \<^verbatim>\<open>deltaX\<close> and \<^verbatim>\<open>deltaY\<close>
  start at zero and are incremented or decremented once, by the sign of the event's
  \<^verbatim>\<open>X\<close> and \<^verbatim>\<open>Y\<close> (signed comparisons on \<^verbatim>\<open>int32\<close>).
\<close>

definition wheel_delta :: "int32 \<Rightarrow> float32" where
  "wheel_delta v = (if 0 <s v then 0 + 1 else if v <s 0 then 0 - 1 else 0)"

fun processEvent :: "sdl_event \<Rightarrow> SDL \<times> sdl_world \<Rightarrow> SDL \<times> sdl_world" where
  "processEvent QUIT (platform, w) = (platform\<lparr>shouldStop := True\<rparr>, w)"
| "processEvent (MOUSEWHEEL X Y) (platform, w) =
     (let deltaX = wheel_delta X;
          deltaY = wheel_delta Y
      in (platform, sdl_io (AddMouseWheelDelta deltaX deltaY) w))"
| "processEvent (MOUSEBUTTONDOWN Button) (platform, w) =
     (if Button = BUTTON_LEFT then
        (platform\<lparr>buttonsDown := (buttonsDown platform)[mouseButtonPrimary := True]\<rparr>, w)
      else if Button = BUTTON_RIGHT then
        (platform\<lparr>buttonsDown := (buttonsDown platform)[mouseButtonSecondary := True]\<rparr>, w)
      else if Button = BUTTON_MIDDLE then
        (platform\<lparr>buttonsDown := (buttonsDown platform)[mouseButtonTertiary := True]\<rparr>, w)
      else (platform, w))"
| "processEvent (TEXTINPUT Text) (platform, w) =
     (platform, sdl_io (AddInputCharacters Text) w)"
| "processEvent (KEYDOWN Sym Scancode Mod) (platform, w) =
     (let k = sdl2KeyEventToImguiKey Sym Scancode
      in (platform, sdl2SetImguiModKey Mod (sdl_io (AddKeyEvent k True) w)))"
| "processEvent (KEYUP Sym Scancode Mod) (platform, w) =
     (let k = sdl2KeyEventToImguiKey Sym Scancode
      in (platform, sdl2SetImguiModKey Mod (sdl_io (AddKeyEvent k False) w)))"
| "processEvent (OtherEvent t) (platform, w) = (platform, w)"

text \<open>
  \<^verbatim>\<open>ProcessEvents\<close> polls until the queue is empty. The loop takes one event from the
  queue of the world per iteration; \<^verbatim>\<open>processEvent\<close> adds none.
\<close>

fun process_pending :: "sdl_event list \<Rightarrow> SDL \<times> sdl_world \<Rightarrow> SDL \<times> sdl_world" where
  "process_pending [] pw = pw"
| "process_pending (event # events) pw = process_pending events (processEvent event pw)"

definition ProcessEvents :: "SDL \<times> sdl_world \<Rightarrow> SDL \<times> sdl_world" where
  "ProcessEvents pw =
     (case pw of (platform, w) \<Rightarrow>
        process_pending (pending_events w) (platform, w\<lparr>pending_events := []\<rparr>))"

text \<open>
  \<^verbatim>\<open>NewFrame\<close>. The loop over the three buttons is in source order
  \<^verbatim>\<open>[BUTTON_LEFT, BUTTON_RIGHT, BUTTON_MIDDLE]\<close>, with the index into \<^verbatim>\<open>buttonsDown\<close>.
\<close>

definition fallbackDelta :: float32 where
  "fallbackDelta = 1 / 60"

fun NewFrame_buttons :: "uint32 \<Rightarrow> (nat \<times> uint8) list \<Rightarrow> SDL \<times> sdl_world \<Rightarrow> SDL \<times> sdl_world" where
  "NewFrame_buttons state [] pw = pw"
| "NewFrame_buttons state ((i, button) # rest) (platform, w) =
     NewFrame_buttons state rest
       (platform\<lparr>buttonsDown := (buttonsDown platform)[i := False]\<rparr>,
        sdl_io (SetMouseButtonDown i
                 ((i < length (buttonsDown platform) \<and> buttonsDown platform ! i)
                  \<or> state AND sdl_Button (ucast button) \<noteq> 0)) w)"

definition NewFrame :: "SDL \<times> sdl_world \<Rightarrow> SDL \<times> sdl_world" where
  "NewFrame pw =
     (case pw of (platform, w) \<Rightarrow>
        (let displaySize = DisplaySize (platform, w);
             w = sdl_io (SetDisplaySize (fst displaySize) (snd displaySize)) w;
             frequency = performance_frequency w;
             currentTime = performance_counter w;
             w = (if 0 < time platform then
                    sdl_io (SetDeltaTime (float32_of_uint64 (currentTime - time platform)
                                          / float32_of_uint64 frequency)) w
                  else sdl_io (SetDeltaTime fallbackDelta) w);
             platform = platform\<lparr>time := currentTime\<rparr>
         in case mouse_state w of (x, y, state) \<Rightarrow>
              NewFrame_buttons state
                [(0, BUTTON_LEFT), (1, BUTTON_RIGHT), (2, BUTTON_MIDDLE)]
                (platform, sdl_io (SetMousePosition (float32_of_int32 x) (float32_of_int32 y)) w)))"

definition PostRender :: "SDL \<times> sdl_world \<Rightarrow> SDL \<times> sdl_world" where
  "PostRender pw = (case pw of (platform, w) \<Rightarrow> (platform, sdl_log (sdl_GLSwap (window platform)) w))"

definition ClipboardText :: "SDL \<times> sdl_world \<Rightarrow> string \<times> go_error option" where
  "ClipboardText pw = clipboard_text (snd pw)"

definition SetClipboardText :: "string \<Rightarrow> SDL \<times> sdl_world \<Rightarrow> SDL \<times> sdl_world" where
  "SetClipboardText text pw =
     (case pw of (platform, w) \<Rightarrow> (platform, sdl_log (sdl_SetClipboardText text) w))"

text \<open>
  The operations of the platform, for statements about every sequence of calls: the
  exported methods, \<^verbatim>\<open>processEvent\<close>, and a step of the environment (events arrive, time
  passes, the window is resized), which changes the world and not the struct.
\<close>

datatype sdl_op =
    Op_Dispose
  | Op_ShouldStop
  | Op_ProcessEvents
  | Op_processEvent sdl_event
  | Op_DisplaySize
  | Op_FramebufferSize
  | Op_NewFrame
  | Op_PostRender
  | Op_ClipboardText
  | Op_SetClipboardText string
  | Op_Environment "sdl_world \<Rightarrow> sdl_world"

fun sdl_step :: "sdl_op \<Rightarrow> SDL \<times> sdl_world \<Rightarrow> SDL \<times> sdl_world" where
  "sdl_step Op_Dispose pw = Dispose pw"
| "sdl_step Op_ShouldStop pw = pw"
| "sdl_step Op_ProcessEvents pw = ProcessEvents pw"
| "sdl_step (Op_processEvent e) pw = processEvent e pw"
| "sdl_step Op_DisplaySize pw = pw"
| "sdl_step Op_FramebufferSize pw = pw"
| "sdl_step Op_NewFrame pw = NewFrame pw"
| "sdl_step Op_PostRender pw = PostRender pw"
| "sdl_step Op_ClipboardText pw = pw"
| "sdl_step (Op_SetClipboardText text) pw = SetClipboardText text pw"
| "sdl_step (Op_Environment f) pw = (fst pw, f (snd pw))"

fun sdl_run :: "sdl_op list \<Rightarrow> SDL \<times> sdl_world \<Rightarrow> SDL \<times> sdl_world" where
  "sdl_run [] pw = pw"
| "sdl_run (op # ops) pw = sdl_run ops (sdl_step op pw)"

subsection \<open>Concrete worlds\<close>

text \<open>
  A world in which nothing has happened yet and every library call succeeds, and a platform
  as \<^const>\<open>NewSDL\<close> builds it there. They serve as concrete inputs.
\<close>

definition imgui_IO_initial :: imgui_IO where
  "imgui_IO_initial =
     \<lparr>io_calls = [], BackendFlags = 0, FontsTextureID = 0,
      FontsTextureDataAlpha8 = (512, 64, 4096)\<rparr>"

definition sdl_world_ok :: sdl_world where
  "sdl_world_ok =
     \<lparr>initialised = False, windows = [], gl_contexts = [], sdl_calls = [],
      io = imgui_IO_initial,
      Init_result = None, CreateWindow_result = Inr 1,
      GLCreateContext_result = Inr 7, GLMakeCurrent_result = None,
      pending_events = [], window_size = (1280, 720), drawable_size = (1280, 720),
      performance_frequency = 1000000000, performance_counter = 0,
      mouse_state = (0, 0, 0), clipboard_text = ([], None)\<rparr>"

definition SDL_example :: SDL where
  "SDL_example =
     \<lparr>window = Some 1, shouldStop = False, time = 0, buttonsDown = [False, False, False]\<rparr>"


section \<open>The GLFW platform (\<^verbatim>\<open>internal/platforms/glfw.go\<close>)\<close>

subsection \<open>Keys of GLFW\<close>

text \<open>
  \<^verbatim>\<open>glfw.Key\<close> is a Go \<^verbatim>\<open>int\<close>. The constants have the values of
  \<^verbatim>\<open>glfw3.h\<close>; they carry the prefix \<open>glfw_\<close> here because several share their
  name with a key of the ImGui binding.
\<close>

type_synonym Key = int

definition glfw_KeyTab :: Key where "glfw_KeyTab = 258"
definition glfw_KeyLeft :: Key where "glfw_KeyLeft = 263"
definition glfw_KeyRight :: Key where "glfw_KeyRight = 262"
definition glfw_KeyUp :: Key where "glfw_KeyUp = 265"
definition glfw_KeyDown :: Key where "glfw_KeyDown = 264"
definition glfw_KeyPageUp :: Key where "glfw_KeyPageUp = 266"
definition glfw_KeyPageDown :: Key where "glfw_KeyPageDown = 267"
definition glfw_KeyHome :: Key where "glfw_KeyHome = 268"
definition glfw_KeyEnd :: Key where "glfw_KeyEnd = 269"
definition glfw_KeyInsert :: Key where "glfw_KeyInsert = 260"
definition glfw_KeyDelete :: Key where "glfw_KeyDelete = 261"
definition glfw_KeyBackspace :: Key where "glfw_KeyBackspace = 259"
definition glfw_KeySpace :: Key where "glfw_KeySpace = 32"
definition glfw_KeyEnter :: Key where "glfw_KeyEnter = 257"
definition glfw_KeyEscape :: Key where "glfw_KeyEscape = 256"
definition glfw_KeyApostrophe :: Key where "glfw_KeyApostrophe = 39"
definition glfw_KeyComma :: Key where "glfw_KeyComma = 44"
definition glfw_KeyMinus :: Key where "glfw_KeyMinus = 45"
definition glfw_KeyPeriod :: Key where "glfw_KeyPeriod = 46"
definition glfw_KeySlash :: Key where "glfw_KeySlash = 47"
definition glfw_KeySemicolon :: Key where "glfw_KeySemicolon = 59"
definition glfw_KeyEqual :: Key where "glfw_KeyEqual = 61"
definition glfw_KeyLeftBracket :: Key where "glfw_KeyLeftBracket = 91"
definition glfw_KeyBackslash :: Key where "glfw_KeyBackslash = 92"
definition glfw_KeyWorld1 :: Key where "glfw_KeyWorld1 = 161"
definition glfw_KeyWorld2 :: Key where "glfw_KeyWorld2 = 162"
definition glfw_KeyRightBracket :: Key where "glfw_KeyRightBracket = 93"
definition glfw_KeyGraveAccent :: Key where "glfw_KeyGraveAccent = 96"
definition glfw_KeyCapsLock :: Key where "glfw_KeyCapsLock = 280"
definition glfw_KeyScrollLock :: Key where "glfw_KeyScrollLock = 281"
definition glfw_KeyNumLock :: Key where "glfw_KeyNumLock = 282"
definition glfw_KeyPrintScreen :: Key where "glfw_KeyPrintScreen = 283"
definition glfw_KeyPause :: Key where "glfw_KeyPause = 284"
definition glfw_KeyKP0 :: Key where "glfw_KeyKP0 = 320"
definition glfw_KeyKP1 :: Key where "glfw_KeyKP1 = 321"
definition glfw_KeyKP2 :: Key where "glfw_KeyKP2 = 322"
definition glfw_KeyKP3 :: Key where "glfw_KeyKP3 = 323"
definition glfw_KeyKP4 :: Key where "glfw_KeyKP4 = 324"
definition glfw_KeyKP5 :: Key where "glfw_KeyKP5 = 325"
definition glfw_KeyKP6 :: Key where "glfw_KeyKP6 = 326"
definition glfw_KeyKP7 :: Key where "glfw_KeyKP7 = 327"
definition glfw_KeyKP8 :: Key where "glfw_KeyKP8 = 328"
definition glfw_KeyKP9 :: Key where "glfw_KeyKP9 = 329"
definition glfw_KeyKPDecimal :: Key where "glfw_KeyKPDecimal = 330"
definition glfw_KeyKPDivide :: Key where "glfw_KeyKPDivide = 331"
definition glfw_KeyKPMultiply :: Key where "glfw_KeyKPMultiply = 332"
definition glfw_KeyKPSubtract :: Key where "glfw_KeyKPSubtract = 333"
definition glfw_KeyKPAdd :: Key where "glfw_KeyKPAdd = 334"
definition glfw_KeyKPEnter :: Key where "glfw_KeyKPEnter = 335"
definition glfw_KeyKPEqual :: Key where "glfw_KeyKPEqual = 336"
definition glfw_KeyLeftShift :: Key where "glfw_KeyLeftShift = 340"
definition glfw_KeyLeftControl :: Key where "glfw_KeyLeftControl = 341"
definition glfw_KeyLeftAlt :: Key where "glfw_KeyLeftAlt = 342"
definition glfw_KeyLeftSuper :: Key where "glfw_KeyLeftSuper = 343"
definition glfw_KeyRightShift :: Key where "glfw_KeyRightShift = 344"
definition glfw_KeyRightControl :: Key where "glfw_KeyRightControl = 345"
definition glfw_KeyRightAlt :: Key where "glfw_KeyRightAlt = 346"
definition glfw_KeyRightSuper :: Key where "glfw_KeyRightSuper = 347"
definition glfw_KeyMenu :: Key where "glfw_KeyMenu = 348"
definition glfw_Key0 :: Key where "glfw_Key0 = 48"
definition glfw_Key1 :: Key where "glfw_Key1 = 49"
definition glfw_Key2 :: Key where "glfw_Key2 = 50"
definition glfw_Key3 :: Key where "glfw_Key3 = 51"
definition glfw_Key4 :: Key where "glfw_Key4 = 52"
definition glfw_Key5 :: Key where "glfw_Key5 = 53"
definition glfw_Key6 :: Key where "glfw_Key6 = 54"
definition glfw_Key7 :: Key where "glfw_Key7 = 55"
definition glfw_Key8 :: Key where "glfw_Key8 = 56"
definition glfw_Key9 :: Key where "glfw_Key9 = 57"
definition glfw_KeyA :: Key where "glfw_KeyA = 65"
definition glfw_KeyB :: Key where "glfw_KeyB = 66"
definition glfw_KeyC :: Key where "glfw_KeyC = 67"
definition glfw_KeyD :: Key where "glfw_KeyD = 68"
definition glfw_KeyE :: Key where "glfw_KeyE = 69"
definition glfw_KeyF :: Key where "glfw_KeyF = 70"
definition glfw_KeyG :: Key where "glfw_KeyG = 71"
definition glfw_KeyH :: Key where "glfw_KeyH = 72"
definition glfw_KeyI :: Key where "glfw_KeyI = 73"
definition glfw_KeyJ :: Key where "glfw_KeyJ = 74"
definition glfw_KeyK :: Key where "glfw_KeyK = 75"
definition glfw_KeyL :: Key where "glfw_KeyL = 76"
definition glfw_KeyM :: Key where "glfw_KeyM = 77"
definition glfw_KeyN :: Key where "glfw_KeyN = 78"
definition glfw_KeyO :: Key where "glfw_KeyO = 79"
definition glfw_KeyP :: Key where "glfw_KeyP = 80"
definition glfw_KeyQ :: Key where "glfw_KeyQ = 81"
definition glfw_KeyR :: Key where "glfw_KeyR = 82"
definition glfw_KeyS :: Key where "glfw_KeyS = 83"
definition glfw_KeyT :: Key where "glfw_KeyT = 84"
definition glfw_KeyU :: Key where "glfw_KeyU = 85"
definition glfw_KeyV :: Key where "glfw_KeyV = 86"
definition glfw_KeyW :: Key where "glfw_KeyW = 87"
definition glfw_KeyX :: Key where "glfw_KeyX = 88"
definition glfw_KeyY :: Key where "glfw_KeyY = 89"
definition glfw_KeyZ :: Key where "glfw_KeyZ = 90"
definition glfw_KeyF1 :: Key where "glfw_KeyF1 = 290"
definition glfw_KeyF2 :: Key where "glfw_KeyF2 = 291"
definition glfw_KeyF3 :: Key where "glfw_KeyF3 = 292"
definition glfw_KeyF4 :: Key where "glfw_KeyF4 = 293"
definition glfw_KeyF5 :: Key where "glfw_KeyF5 = 294"
definition glfw_KeyF6 :: Key where "glfw_KeyF6 = 295"
definition glfw_KeyF7 :: Key where "glfw_KeyF7 = 296"
definition glfw_KeyF8 :: Key where "glfw_KeyF8 = 297"
definition glfw_KeyF9 :: Key where "glfw_KeyF9 = 298"
definition glfw_KeyF10 :: Key where "glfw_KeyF10 = 299"
definition glfw_KeyF11 :: Key where "glfw_KeyF11 = 300"
definition glfw_KeyF12 :: Key where "glfw_KeyF12 = 301"
definition glfw_KeyF13 :: Key where "glfw_KeyF13 = 302"
definition glfw_KeyF14 :: Key where "glfw_KeyF14 = 303"
definition glfw_KeyF15 :: Key where "glfw_KeyF15 = 304"
definition glfw_KeyF16 :: Key where "glfw_KeyF16 = 305"
definition glfw_KeyF17 :: Key where "glfw_KeyF17 = 306"
definition glfw_KeyF18 :: Key where "glfw_KeyF18 = 307"
definition glfw_KeyF19 :: Key where "glfw_KeyF19 = 308"
definition glfw_KeyF20 :: Key where "glfw_KeyF20 = 309"
definition glfw_KeyF21 :: Key where "glfw_KeyF21 = 310"
definition glfw_KeyF22 :: Key where "glfw_KeyF22 = 311"
definition glfw_KeyF23 :: Key where "glfw_KeyF23 = 312"
definition glfw_KeyF24 :: Key where "glfw_KeyF24 = 313"

text \<open>The \<^verbatim>\<open>switch\<close> of \<^verbatim>\<open>glfwKeyEventToImguiKey\<close>, one pair for each \<^verbatim>\<open>case\<close>.\<close>

definition glfw_key_cases :: "(Key \<times> ImguiKey) list" where
  "glfw_key_cases =
    [(glfw_KeyTab, KeyTab), (glfw_KeyLeft, KeyLeftArrow), (glfw_KeyRight, KeyRightArrow),
     (glfw_KeyUp, KeyUpArrow), (glfw_KeyDown, KeyDownArrow), (glfw_KeyPageUp, KeyPageUp),
     (glfw_KeyPageDown, KeyPageDown), (glfw_KeyHome, KeyHome), (glfw_KeyEnd, KeyEnd),
     (glfw_KeyInsert, KeyInsert), (glfw_KeyDelete, KeyDelete), (glfw_KeyBackspace, KeyBackspace),
     (glfw_KeySpace, KeySpace), (glfw_KeyEnter, KeyEnter), (glfw_KeyEscape, KeyEscape),
     (glfw_KeyApostrophe, KeyApostrophe), (glfw_KeyComma, KeyComma), (glfw_KeyMinus, KeyMinus),
     (glfw_KeyPeriod, KeyPeriod), (glfw_KeySlash, KeySlash), (glfw_KeySemicolon, KeySemicolon),
     (glfw_KeyEqual, KeyEqual), (glfw_KeyLeftBracket, KeyLeftBracket),
     (glfw_KeyBackslash, KeyBackslash), (glfw_KeyWorld1, KeyOem102), (glfw_KeyWorld2, KeyOem102),
     (glfw_KeyRightBracket, KeyRightBracket), (glfw_KeyGraveAccent, KeyGraveAccent),
     (glfw_KeyCapsLock, KeyCapsLock), (glfw_KeyScrollLock, KeyScrollLock),
     (glfw_KeyNumLock, KeyNumLock), (glfw_KeyPrintScreen, KeyPrintScreen),
     (glfw_KeyPause, KeyPause), (glfw_KeyKP0, KeyKeypad0), (glfw_KeyKP1, KeyKeypad1),
     (glfw_KeyKP2, KeyKeypad2), (glfw_KeyKP3, KeyKeypad3), (glfw_KeyKP4, KeyKeypad4),
     (glfw_KeyKP5, KeyKeypad5), (glfw_KeyKP6, KeyKeypad6), (glfw_KeyKP7, KeyKeypad7),
     (glfw_KeyKP8, KeyKeypad8), (glfw_KeyKP9, KeyKeypad9), (glfw_KeyKPDecimal, KeyKeypadDecimal),
     (glfw_KeyKPDivide, KeyKeypadDivide), (glfw_KeyKPMultiply, KeyKeypadMultiply),
     (glfw_KeyKPSubtract, KeyKeypadSubtract), (glfw_KeyKPAdd, KeyKeypadAdd),
     (glfw_KeyKPEnter, KeyKeypadEnter), (glfw_KeyKPEqual, KeyKeypadEqual),
     (glfw_KeyLeftShift, KeyLeftShift), (glfw_KeyLeftControl, KeyLeftCtrl),
     (glfw_KeyLeftAlt, KeyLeftAlt), (glfw_KeyLeftSuper, KeyLeftSuper),
     (glfw_KeyRightShift, KeyRightShift), (glfw_KeyRightControl, KeyRightCtrl),
     (glfw_KeyRightAlt, KeyRightAlt), (glfw_KeyRightSuper, KeyRightSuper), (glfw_KeyMenu, KeyMenu),
     (glfw_Key0, Key0), (glfw_Key1, Key1), (glfw_Key2, Key2), (glfw_Key3, Key3), (glfw_Key4, Key4),
     (glfw_Key5, Key5), (glfw_Key6, Key6), (glfw_Key7, Key7), (glfw_Key8, Key8), (glfw_Key9, Key9),
     (glfw_KeyA, KeyA), (glfw_KeyB, KeyB), (glfw_KeyC, KeyC), (glfw_KeyD, KeyD), (glfw_KeyE, KeyE),
     (glfw_KeyF, KeyF), (glfw_KeyG, KeyG), (glfw_KeyH, KeyH), (glfw_KeyI, KeyI), (glfw_KeyJ, KeyJ),
     (glfw_KeyK, KeyK), (glfw_KeyL, KeyL), (glfw_KeyM, KeyM), (glfw_KeyN, KeyN), (glfw_KeyO, KeyO),
     (glfw_KeyP, KeyP), (glfw_KeyQ, KeyQ), (glfw_KeyR, KeyR), (glfw_KeyS, KeyS), (glfw_KeyT, KeyT),
     (glfw_KeyU, KeyU), (glfw_KeyV, KeyV), (glfw_KeyW, KeyW), (glfw_KeyX, KeyX), (glfw_KeyY, KeyY),
     (glfw_KeyZ, KeyZ), (glfw_KeyF1, KeyF1), (glfw_KeyF2, KeyF2), (glfw_KeyF3, KeyF3),
     (glfw_KeyF4, KeyF4), (glfw_KeyF5, KeyF5), (glfw_KeyF6, KeyF6), (glfw_KeyF7, KeyF7),
     (glfw_KeyF8, KeyF8), (glfw_KeyF9, KeyF9), (glfw_KeyF10, KeyF10), (glfw_KeyF11, KeyF11),
     (glfw_KeyF12, KeyF12), (glfw_KeyF13, KeyF13), (glfw_KeyF14, KeyF14), (glfw_KeyF15, KeyF15),
     (glfw_KeyF16, KeyF16), (glfw_KeyF17, KeyF17), (glfw_KeyF18, KeyF18), (glfw_KeyF19, KeyF19),
     (glfw_KeyF20, KeyF20), (glfw_KeyF21, KeyF21), (glfw_KeyF22, KeyF22), (glfw_KeyF23, KeyF23),
     (glfw_KeyF24, KeyF24)]"

definition glfwKeyEventToImguiKey :: "Key \<Rightarrow> int \<Rightarrow> ImguiKey" where
  "glfwKeyEventToImguiKey key scancode =
     (case go_switch glfw_key_cases key of
        Some k \<Rightarrow> k
      | None \<Rightarrow> KeyNone)"

definition glfw_mapped_keys :: "Key list" where
  "glfw_mapped_keys = map fst glfw_key_cases"

subsection \<open>The GLFW library\<close>

type_synonym glfw_Window = nat

datatype Action = Release | Press | Repeat

type_synonym ModifierKey = int32

definition ModShift :: ModifierKey where "ModShift = 1"
definition ModControl :: ModifierKey where "ModControl = 2"
definition ModAlt :: ModifierKey where "ModAlt = 4"
definition ModSuper :: ModifierKey where "ModSuper = 8"

datatype MouseButton = MouseButton1 | MouseButton2 | MouseButton3 | MouseButtonOther nat

datatype Hint = ContextVersionMajor | ContextVersionMinor | OpenGLProfile | OpenGLForwardCompatible


datatype glfw_call =
    glfw_Init
  | glfw_Terminate
  | glfw_WindowHint Hint int
  | glfw_CreateWindow string
  | glfw_MakeContextCurrent glfw_Window
  | glfw_SwapInterval int
  | glfw_SetCallbacks glfw_Window
  | glfw_Window_Destroy glfw_Window

text \<open>
  The state of the GLFW library and of the IO object, with the results of the two calls of
  \<^verbatim>\<open>NewGLFW\<close> that can fail. GLFW destroys its remaining windows when it terminates.
\<close>

record glfw_world =
  glfw_initialised :: bool
  glfw_windows :: "glfw_Window list"
  glfw_calls :: "glfw_call list"
  glfw_io :: imgui_IO
  glfw_Init_result :: "go_error option"
  glfw_CreateWindow_result :: "go_error + glfw_Window"

definition glfw_log :: "glfw_call \<Rightarrow> glfw_world \<Rightarrow> glfw_world" where
  "glfw_log c w = w\<lparr>glfw_calls := glfw_calls w @ [c]\<rparr>"


definition Terminate :: "glfw_world \<Rightarrow> glfw_world" where
  "Terminate w = (glfw_log glfw_Terminate w)\<lparr>glfw_initialised := False, glfw_windows := []\<rparr>"



definition glfw_do_Window_Destroy :: "glfw_Window \<Rightarrow> glfw_world \<Rightarrow> glfw_world" where
  "glfw_do_Window_Destroy win w =
     (glfw_log (glfw_Window_Destroy win) w)\<lparr>glfw_windows := removeAll win (glfw_windows w)\<rparr>"

definition glfw_io_call :: "io_call \<Rightarrow> glfw_world \<Rightarrow> glfw_world" where
  "glfw_io_call c w = w\<lparr>glfw_io := io_call c (glfw_io w)\<rparr>"

subsection \<open>The platform\<close>



text \<open>
  The struct \<^verbatim>\<open>GLFW\<close>; its fields carry the prefix \<open>glfw_\<close> where the struct
  \<^verbatim>\<open>SDL\<close> has a field of the same name.
\<close>

record GLFW =
  glfw_window :: glfw_Window
  glfw_time :: float64
  mouseJustPressed :: "bool list"




definition GLFW_Dispose :: "GLFW \<times> glfw_world \<Rightarrow> GLFW \<times> glfw_world" where
  "GLFW_Dispose pw =
     (case pw of (platform, w) \<Rightarrow>
        (platform, Terminate (glfw_do_Window_Destroy (glfw_window platform) w)))"

text \<open>The callbacks that GLFW invokes for input events.\<close>

definition glfwButtonIndexByID :: "MouseButton \<Rightarrow> nat option" where
  "glfwButtonIndexByID rawButton =
     (case rawButton of
        MouseButton1 \<Rightarrow> Some mouseButtonPrimary
      | MouseButton2 \<Rightarrow> Some mouseButtonSecondary
      | MouseButton3 \<Rightarrow> Some mouseButtonTertiary
      | MouseButtonOther n \<Rightarrow> None)"

definition mouseButtonChange ::
    "MouseButton \<Rightarrow> Action \<Rightarrow> ModifierKey \<Rightarrow> GLFW \<times> glfw_world \<Rightarrow> GLFW \<times> glfw_world" where
  "mouseButtonChange rawButton action mods pw =
     (case pw of (platform, w) \<Rightarrow>
        (case glfwButtonIndexByID rawButton of
           Some buttonIndex \<Rightarrow>
             (if action = Press then
                (platform\<lparr>mouseJustPressed := (mouseJustPressed platform)[buttonIndex := True]\<rparr>, w)
              else (platform, w))
         | None \<Rightarrow> (platform, w)))"

definition mouseScrollChange :: "float64 \<Rightarrow> float64 \<Rightarrow> GLFW \<times> glfw_world \<Rightarrow> GLFW \<times> glfw_world" where
  "mouseScrollChange x y pw =
     (case pw of (platform, w) \<Rightarrow>
        (platform, glfw_io_call (AddMouseWheelDelta (float32_of_float64 x) (float32_of_float64 y)) w))"

definition glfwSetImguiModKey :: "ModifierKey \<Rightarrow> glfw_world \<Rightarrow> glfw_world" where
  "glfwSetImguiModKey mods w =
     (let w = glfw_io_call (AddKeyEvent KeyModCtrl (mods AND ModControl \<noteq> 0)) w;
          w = glfw_io_call (AddKeyEvent KeyModShift (mods AND ModShift \<noteq> 0)) w;
          w = glfw_io_call (AddKeyEvent KeyModAlt (mods AND ModAlt \<noteq> 0)) w;
          w = glfw_io_call (AddKeyEvent KeyModSuper (mods AND ModSuper \<noteq> 0)) w
      in w)"

definition keyChange ::
    "Key \<Rightarrow> int \<Rightarrow> Action \<Rightarrow> ModifierKey \<Rightarrow> GLFW \<times> glfw_world \<Rightarrow> GLFW \<times> glfw_world" where
  "keyChange key scancode action mods pw =
     (case pw of (platform, w) \<Rightarrow>
        (let k = glfwKeyEventToImguiKey key scancode;
             w = (if action = Press then glfw_io_call (AddKeyEvent k True) w else w);
             w = (if action = Release then glfw_io_call (AddKeyEvent k False) w else w)
         in (platform, glfwSetImguiModKey mods w)))"

subsection \<open>Concrete worlds\<close>

definition glfw_world_ok :: glfw_world where
  "glfw_world_ok =
     \<lparr>glfw_initialised = False, glfw_windows = [], glfw_calls = [],
      glfw_io = imgui_IO_initial,
      glfw_Init_result = None, glfw_CreateWindow_result = Inr 1\<rparr>"

definition GLFW_example :: GLFW where
  "GLFW_example = \<lparr>glfw_window = 1, glfw_time = 0, mouseJustPressed = [False, False, False]\<rparr>"


section \<open>The OpenGL3 renderer (\<^verbatim>\<open>internal/renderers/OpenGL3.go\<close>)\<close>

subsection \<open>The OpenGL context\<close>

text \<open>
  The renderer talks to OpenGL through the generated binding
  \<^verbatim>\<open>internal/renderers/gl/v3.2-core/gl\<close>, whose functions pass their arguments to the
  native library. The context is represented by the state that \<^verbatim>\<open>Render\<close> saves and
  restores, as the OpenGL 3.2 core profile defines it:
  \<^item> the 2D texture binding and the sampler binding exist once per texture unit;
    \<^verbatim>\<open>glBindTexture\<close> and the queries act on the active unit, \<^verbatim>\<open>glBindSampler\<close> on
    the unit it names. Units are numbered from 0; the active unit is stored as the
    enumerator \<open>TEXTURE0 + i\<close>;
  \<^item> the element-array-buffer binding belongs to the vertex array object that is bound;
    the array-buffer binding belongs to the context;
  \<^item> the polygon mode is one value for both faces;
  \<^item> a new object gets the name that the driver picks, \<open>next_name\<close>.
  Enumerators that select what a call acts on are datatypes here; enumerators that are
  stored in the context are 32-bit values with the numbers of the OpenGL headers.
  Calls are taken to have valid arguments: the error cases of OpenGL, in which a call has
  no effect, and the life time of objects are left out.
\<close>

datatype capability = BLEND | CULL_FACE | DEPTH_TEST | SCISSOR_TEST

datatype buffer_target = ARRAY_BUFFER | ELEMENT_ARRAY_BUFFER

datatype pname =
    ACTIVE_TEXTURE | CURRENT_PROGRAM | TEXTURE_BINDING_2D | SAMPLER_BINDING
  | ARRAY_BUFFER_BINDING | ELEMENT_ARRAY_BUFFER_BINDING | VERTEX_ARRAY_BINDING
  | POLYGON_MODE | VIEWPORT | SCISSOR_BOX
  | BLEND_SRC_RGB | BLEND_DST_RGB | BLEND_SRC_ALPHA | BLEND_DST_ALPHA
  | BLEND_EQUATION_RGB | BLEND_EQUATION_ALPHA

definition TEXTURE0 :: uint32 where "TEXTURE0 = 0x84C0"
definition TEXTURE_2D :: uint32 where "TEXTURE_2D = 0x0DE1"
definition FUNC_ADD :: uint32 where "FUNC_ADD = 0x8006"
definition SRC_ALPHA :: uint32 where "SRC_ALPHA = 0x0302"
definition ONE_MINUS_SRC_ALPHA :: uint32 where "ONE_MINUS_SRC_ALPHA = 0x0303"
definition FRONT_AND_BACK :: uint32 where "FRONT_AND_BACK = 0x0408"
definition FILL :: uint32 where "FILL = 0x1B02"
definition TRIANGLES :: uint32 where "TRIANGLES = 0x0004"
definition UNSIGNED_BYTE :: uint32 where "UNSIGNED_BYTE = 0x1401"
definition UNSIGNED_SHORT :: uint32 where "UNSIGNED_SHORT = 0x1403"
definition UNSIGNED_INT :: uint32 where "UNSIGNED_INT = 0x1405"
definition FLOAT :: uint32 where "FLOAT = 0x1406"
definition STREAM_DRAW :: uint32 where "STREAM_DRAW = 0x88E0"

record gl_context =
  active_texture :: uint32
  current_program :: uint32
  texture_binding_2d :: "uint32 \<Rightarrow> uint32"
  sampler_binding :: "uint32 \<Rightarrow> uint32"
  array_buffer_binding :: uint32
  vertex_array_binding :: uint32
  element_array_buffer_binding :: "uint32 \<Rightarrow> uint32"
  polygon_mode :: uint32
  viewport :: "int32 \<times> int32 \<times> int32 \<times> int32"
  scissor_box :: "int32 \<times> int32 \<times> int32 \<times> int32"
  blend_src_rgb :: uint32
  blend_dst_rgb :: uint32
  blend_src_alpha :: uint32
  blend_dst_alpha :: uint32
  blend_equation_rgb :: uint32
  blend_equation_alpha :: uint32
  enabled :: "capability \<Rightarrow> bool"
  next_name :: uint32

definition active_unit :: "gl_context \<Rightarrow> uint32" where
  "active_unit c = active_texture c - TEXTURE0"

text \<open>
  The calls of the binding that the renderer makes, apart from the queries
  (\<^verbatim>\<open>GetIntegerv\<close>, \<^verbatim>\<open>IsEnabled\<close>, \<^verbatim>\<open>GetUniformLocation\<close>,
  \<^verbatim>\<open>GetAttribLocation\<close>). A call that creates an object carries the name it returned.
  \<open>CallUserCallback\<close> stands for \<^verbatim>\<open>cmd.CallUserCallback(list)\<close>: the callback of a
  draw command is code of the application, which receives the context and may change it.
\<close>

datatype (plugins only: size) gl_call =
    ActiveTexture uint32
  | UseProgram uint32
  | BindTexture uint32 uint32
  | BindSampler uint32 uint32
  | BindBuffer buffer_target uint32
  | BindVertexArray uint32
  | BlendEquation uint32
  | BlendEquationSeparate uint32 uint32
  | BlendFunc uint32 uint32
  | BlendFuncSeparate uint32 uint32 uint32 uint32
  | Enable capability
  | Disable capability
  | PolygonMode uint32 uint32
  | Viewport int32 int32 int32 int32
  | Scissor int32 int32 int32 int32
  | Uniform1i int32 int32
  | UniformMatrix4fv int32 int32 bool "float32 list"
  | GenVertexArrays uint32
  | DeleteVertexArrays uint32
  | EnableVertexAttribArray uint32
  | VertexAttribPointerWithOffset uint32 int32 uint32 bool int32 uintptr
  | BufferData buffer_target int pointer uint32
  | DrawElementsBaseVertexWithOffset uint32 int32 uint32 uintptr int32
  | CallUserCallback "gl_context \<Rightarrow> gl_context"
  | CreateProgram uint32
  | CreateShader uint32 uint32
  | ShaderSource uint32 string
  | CompileShader uint32
  | AttachShader uint32 uint32
  | LinkProgram uint32
  | GenBuffers uint32
  | GenTextures uint32
  | TexParameteri uint32 uint32 int32
  | PixelStorei uint32 int32
  | TexImage2D uint32 int32 uint32 int32 int32 int32 uint32 uint32 pointer
  | DeleteBuffers uint32
  | DetachShader uint32 uint32
  | DeleteShader uint32
  | DeleteProgram uint32
  | DeleteTextures uint32

fun exec :: "gl_call \<Rightarrow> gl_context \<Rightarrow> gl_context" where
  "exec (ActiveTexture texture) c = c\<lparr>active_texture := texture\<rparr>"
| "exec (UseProgram program) c = c\<lparr>current_program := program\<rparr>"
| "exec (BindTexture target texture) c =
     (if target = TEXTURE_2D
      then c\<lparr>texture_binding_2d := (texture_binding_2d c)(active_unit c := texture)\<rparr>
      else c)"
| "exec (BindSampler unit sampler) c =
     c\<lparr>sampler_binding := (sampler_binding c)(unit := sampler)\<rparr>"
| "exec (BindBuffer ARRAY_BUFFER buffer) c = c\<lparr>array_buffer_binding := buffer\<rparr>"
| "exec (BindBuffer ELEMENT_ARRAY_BUFFER buffer) c =
     c\<lparr>element_array_buffer_binding :=
         (element_array_buffer_binding c)(vertex_array_binding c := buffer)\<rparr>"
| "exec (BindVertexArray array) c = c\<lparr>vertex_array_binding := array\<rparr>"
| "exec (BlendEquation mode) c =
     c\<lparr>blend_equation_rgb := mode, blend_equation_alpha := mode\<rparr>"
| "exec (BlendEquationSeparate modeRGB modeAlpha) c =
     c\<lparr>blend_equation_rgb := modeRGB, blend_equation_alpha := modeAlpha\<rparr>"
| "exec (BlendFunc sfactor dfactor) c =
     c\<lparr>blend_src_rgb := sfactor, blend_dst_rgb := dfactor,
       blend_src_alpha := sfactor, blend_dst_alpha := dfactor\<rparr>"
| "exec (BlendFuncSeparate srcRGB dstRGB srcAlpha dstAlpha) c =
     c\<lparr>blend_src_rgb := srcRGB, blend_dst_rgb := dstRGB,
       blend_src_alpha := srcAlpha, blend_dst_alpha := dstAlpha\<rparr>"
| "exec (Enable cap) c = c\<lparr>enabled := (enabled c)(cap := True)\<rparr>"
| "exec (Disable cap) c = c\<lparr>enabled := (enabled c)(cap := False)\<rparr>"
| "exec (PolygonMode face mode) c =
     (if face = FRONT_AND_BACK then c\<lparr>polygon_mode := mode\<rparr> else c)"
| "exec (Viewport x y width height) c = c\<lparr>viewport := (x, y, width, height)\<rparr>"
| "exec (Scissor x y width height) c = c\<lparr>scissor_box := (x, y, width, height)\<rparr>"
| "exec (GenVertexArrays name) c = c\<lparr>next_name := name + 1\<rparr>"
| "exec (DeleteVertexArrays array) c =
     c\<lparr>vertex_array_binding := (if vertex_array_binding c = array then 0 else vertex_array_binding c),
       element_array_buffer_binding := (element_array_buffer_binding c)(array := 0)\<rparr>"
| "exec (CallUserCallback callback) c = callback c"
| "exec (CreateProgram name) c = c\<lparr>next_name := name + 1\<rparr>"
| "exec (CreateShader shaderType name) c = c\<lparr>next_name := name + 1\<rparr>"
| "exec (GenBuffers name) c = c\<lparr>next_name := name + 1\<rparr>"
| "exec (GenTextures name) c = c\<lparr>next_name := name + 1\<rparr>"
| "exec (DeleteBuffers buffer) c =
     c\<lparr>array_buffer_binding := (if array_buffer_binding c = buffer then 0 else array_buffer_binding c),
       element_array_buffer_binding :=
         (\<lambda>array. if array = vertex_array_binding c \<and> element_array_buffer_binding c array = buffer
                  then 0 else element_array_buffer_binding c array)\<rparr>"
| "exec (DeleteTextures texture) c =
     c\<lparr>texture_binding_2d :=
         (\<lambda>unit. if texture_binding_2d c unit = texture then 0 else texture_binding_2d c unit)\<rparr>"
| "exec (Uniform1i location v) c = c"
| "exec (UniformMatrix4fv location n tr m) c = c"
| "exec (EnableVertexAttribArray index) c = c"
| "exec (VertexAttribPointerWithOffset index sz xtype normalized stride off) c = c"
| "exec (BufferData target sz ptr usage) c = c"
| "exec (DrawElementsBaseVertexWithOffset mode n xtype indices basevertex) c = c"
| "exec (ShaderSource shader source) c = c"
| "exec (CompileShader shader) c = c"
| "exec (AttachShader program shader) c = c"
| "exec (LinkProgram program) c = c"
| "exec (TexParameteri target pn param) c = c"
| "exec (PixelStorei pn param) c = c"
| "exec (TexImage2D target level internalformat width height border format xtype pixels) c = c"
| "exec (DetachShader program shader) c = c"
| "exec (DeleteShader shader) c = c"
| "exec (DeleteProgram program) c = c"

text \<open>The queries. \<^verbatim>\<open>GetIntegerv\<close> yields the values it writes to the address it is given.\<close>

fun GetIntegerv :: "pname \<Rightarrow> gl_context \<Rightarrow> int32 list" where
  "GetIntegerv ACTIVE_TEXTURE c = [active_texture c]"
| "GetIntegerv CURRENT_PROGRAM c = [current_program c]"
| "GetIntegerv TEXTURE_BINDING_2D c = [texture_binding_2d c (active_unit c)]"
| "GetIntegerv SAMPLER_BINDING c = [sampler_binding c (active_unit c)]"
| "GetIntegerv ARRAY_BUFFER_BINDING c = [array_buffer_binding c]"
| "GetIntegerv ELEMENT_ARRAY_BUFFER_BINDING c =
     [element_array_buffer_binding c (vertex_array_binding c)]"
| "GetIntegerv VERTEX_ARRAY_BINDING c = [vertex_array_binding c]"
| "GetIntegerv POLYGON_MODE c = [polygon_mode c, polygon_mode c]"
| "GetIntegerv VIEWPORT c = (case viewport c of (x, y, w, h) \<Rightarrow> [x, y, w, h])"
| "GetIntegerv SCISSOR_BOX c = (case scissor_box c of (x, y, w, h) \<Rightarrow> [x, y, w, h])"
| "GetIntegerv BLEND_SRC_RGB c = [blend_src_rgb c]"
| "GetIntegerv BLEND_DST_RGB c = [blend_dst_rgb c]"
| "GetIntegerv BLEND_SRC_ALPHA c = [blend_src_alpha c]"
| "GetIntegerv BLEND_DST_ALPHA c = [blend_dst_alpha c]"
| "GetIntegerv BLEND_EQUATION_RGB c = [blend_equation_rgb c]"
| "GetIntegerv BLEND_EQUATION_ALPHA c = [blend_equation_alpha c]"

definition IsEnabled :: "capability \<Rightarrow> gl_context \<Rightarrow> bool" where
  "IsEnabled cap c = enabled c cap"

text \<open>
  The binding as the renderer sees it: the context, the calls issued so far, and what the
  library answers where the Go code cannot know it (the result of \<^verbatim>\<open>gl.Init\<close>, the
  locations of the uniforms and attributes of the linked program).
\<close>

record gl =
  "context" :: gl_context
  calls :: "gl_call list"
  gl_Init_result :: "go_error option"
  uniform_location :: "string \<Rightarrow> int32"
  attrib_location :: "string \<Rightarrow> int32"

definition gl_do :: "gl_call \<Rightarrow> gl \<Rightarrow> gl" where
  "gl_do call g = g\<lparr>context := exec call (context g), calls := calls g @ [call]\<rparr>"

definition gl_gen :: "(uint32 \<Rightarrow> gl_call) \<Rightarrow> gl \<Rightarrow> uint32 \<times> gl" where
  "gl_gen create g = (next_name (context g), gl_do (create (next_name (context g))) g)"

subsection \<open>Draw data of the ImGui binding\<close>

text \<open>
  A draw command with the values its accessor methods return. \<^verbatim>\<open>HasUserCallback\<close>
  tells whether the command carries a callback. The buffers of a draw list are a
  pointer and a size in bytes. \<^verbatim>\<open>imgui.VertexBufferLayout\<close> and
  \<^verbatim>\<open>imgui.IndexBufferLayout\<close> return constants of the binding, which are an input here.
\<close>

datatype Vec2 = Vec2 (Vec2_X: float32) (Vec2_Y: float32)

datatype Vec4 = Vec4 (Vec4_X: float32) (Vec4_Y: float32) (Vec4_Z: float32) (Vec4_W: float32)

record DrawCommand =
  UserCallback :: "(gl_context \<Rightarrow> gl_context) option"
  TextureID :: uintptr
  ClipRect :: Vec4
  ElementCount :: int
  IndexOffset :: int
  VertexOffset :: int

definition HasUserCallback :: "DrawCommand \<Rightarrow> bool" where
  "HasUserCallback cmd = (UserCallback cmd \<noteq> None)"

record DrawList =
  VertexBuffer :: "pointer \<times> int"
  IndexBuffer :: "pointer \<times> int"
  Commands :: "DrawCommand list"

record DrawData =
  CommandLists :: "DrawList list"

record BufferLayout =
  vertexSize :: int
  vertexOffsetPos :: int
  vertexOffsetUv :: int
  vertexOffsetCol :: int
  indexSize :: int

definition ScaleClipRects :: "Vec2 \<Rightarrow> DrawData \<Rightarrow> DrawData" where
  "ScaleClipRects scale drawData =
     drawData\<lparr>CommandLists :=
       map (\<lambda>list. list\<lparr>Commands :=
              map (\<lambda>cmd. cmd\<lparr>ClipRect :=
                     Vec4 (Vec4_X (ClipRect cmd) * Vec2_X scale) (Vec4_Y (ClipRect cmd) * Vec2_Y scale)
                          (Vec4_Z (ClipRect cmd) * Vec2_X scale) (Vec4_W (ClipRect cmd) * Vec2_Y scale)\<rparr>)
                  (Commands list)\<rparr>)
           (CommandLists drawData)\<rparr>"

subsection \<open>The renderer\<close>

text \<open>
  The struct \<^verbatim>\<open>OpenGL3\<close>, without its handle \<^verbatim>\<open>imguiIO\<close> on the IO object. The two
  shader sources are embedded files that are not among the sources; they are an input.
\<close>

record OpenGL3 =
  glslVersion :: string
  fontTexture :: uint32
  shaderHandle :: uint32
  vertHandle :: uint32
  fragHandle :: uint32
  attribLocationTex :: int32
  attribLocationProjMtx :: int32
  attribLocationPosition :: int32
  attribLocationUV :: int32
  attribLocationColor :: int32
  vboHandle :: uint32
  elementsHandle :: uint32


text \<open>The local variables of the block \<^verbatim>\<open>// Backup GL state\<close> of \<^verbatim>\<open>Render\<close>.\<close>

record gl_backup =
  lastActiveTexture :: int32
  lastProgram :: int32
  lastTexture :: int32
  lastSampler :: int32
  lastArrayBuffer :: int32
  lastElementArrayBuffer :: int32
  lastVertexArray :: int32
  lastPolygonMode :: "int32 list"
  lastViewport :: "int32 list"
  lastScissorBox :: "int32 list"
  lastBlendSrcRgb :: int32
  lastBlendDstRgb :: int32
  lastBlendSrcAlpha :: int32
  lastBlendDstAlpha :: int32
  lastBlendEquationRgb :: int32
  lastBlendEquationAlpha :: int32
  lastEnableBlend :: bool
  lastEnableCullFace :: bool
  lastEnableDepthTest :: bool
  lastEnableScissorTest :: bool

definition backup_gl_state :: "gl \<Rightarrow> gl_backup \<times> gl" where
  "backup_gl_state g0 =
     (let lastActiveTexture' = GetIntegerv ACTIVE_TEXTURE (context g0) ! 0;
          g = gl_do (ActiveTexture TEXTURE0) g0;
          c = context g
      in (\<lparr>lastActiveTexture = lastActiveTexture',
           lastProgram = GetIntegerv CURRENT_PROGRAM c ! 0,
           lastTexture = GetIntegerv TEXTURE_BINDING_2D c ! 0,
           lastSampler = GetIntegerv SAMPLER_BINDING c ! 0,
           lastArrayBuffer = GetIntegerv ARRAY_BUFFER_BINDING c ! 0,
           lastElementArrayBuffer = GetIntegerv ELEMENT_ARRAY_BUFFER_BINDING c ! 0,
           lastVertexArray = GetIntegerv VERTEX_ARRAY_BINDING c ! 0,
           lastPolygonMode = GetIntegerv POLYGON_MODE c,
           lastViewport = GetIntegerv VIEWPORT c,
           lastScissorBox = GetIntegerv SCISSOR_BOX c,
           lastBlendSrcRgb = GetIntegerv BLEND_SRC_RGB c ! 0,
           lastBlendDstRgb = GetIntegerv BLEND_DST_RGB c ! 0,
           lastBlendSrcAlpha = GetIntegerv BLEND_SRC_ALPHA c ! 0,
           lastBlendDstAlpha = GetIntegerv BLEND_DST_ALPHA c ! 0,
           lastBlendEquationRgb = GetIntegerv BLEND_EQUATION_RGB c ! 0,
           lastBlendEquationAlpha = GetIntegerv BLEND_EQUATION_ALPHA c ! 0,
           lastEnableBlend = IsEnabled BLEND c,
           lastEnableCullFace = IsEnabled CULL_FACE c,
           lastEnableDepthTest = IsEnabled DEPTH_TEST c,
           lastEnableScissorTest = IsEnabled SCISSOR_TEST c\<rparr>, g))"

text \<open>
  The blocks \<^verbatim>\<open>// Setup render state\<close> and \<^verbatim>\<open>// Setup viewport, orthographic
  projection matrix\<close>.
\<close>

definition orthoProjection :: "float32 \<Rightarrow> float32 \<Rightarrow> float32 list" where
  "orthoProjection displayWidth displayHeight =
     [2 / displayWidth, 0, 0, 0,
      0, 2 / - displayHeight, 0, 0,
      0, 0, - 1, 0,
      - 1, 1, 0, 1]"

definition setup_render_state ::
    "OpenGL3 \<Rightarrow> float32 \<Rightarrow> float32 \<Rightarrow> float32 \<Rightarrow> float32 \<Rightarrow> gl \<Rightarrow> gl" where
  "setup_render_state renderer displayWidth displayHeight fbWidth fbHeight g =
     (let g = gl_do (Enable BLEND) g;
          g = gl_do (BlendEquation FUNC_ADD) g;
          g = gl_do (BlendFunc SRC_ALPHA ONE_MINUS_SRC_ALPHA) g;
          g = gl_do (Disable CULL_FACE) g;
          g = gl_do (Disable DEPTH_TEST) g;
          g = gl_do (Enable SCISSOR_TEST) g;
          g = gl_do (PolygonMode FRONT_AND_BACK FILL) g;
          g = gl_do (Viewport 0 0 (int32_of_float32 fbWidth) (int32_of_float32 fbHeight)) g;
          g = gl_do (UseProgram (shaderHandle renderer)) g;
          g = gl_do (Uniform1i (attribLocationTex renderer) 0) g;
          g = gl_do (UniformMatrix4fv (attribLocationProjMtx renderer) 1 False
                       (orthoProjection displayWidth displayHeight)) g;
          g = gl_do (BindSampler 0 0) g
      in g)"

text \<open>The block \<^verbatim>\<open>// Recreate the VAO every time\<close>; it yields \<^verbatim>\<open>vaoHandle\<close>.\<close>

definition setup_vertex_array :: "BufferLayout \<Rightarrow> OpenGL3 \<Rightarrow> gl \<Rightarrow> uint32 \<times> gl" where
  "setup_vertex_array layout renderer g =
     (case gl_gen GenVertexArrays g of
        (vaoHandle, g) \<Rightarrow>
          (let g = gl_do (BindVertexArray vaoHandle) g;
               g = gl_do (BindBuffer ARRAY_BUFFER (vboHandle renderer)) g;
               g = gl_do (EnableVertexAttribArray (attribLocationPosition renderer)) g;
               g = gl_do (EnableVertexAttribArray (attribLocationUV renderer)) g;
               g = gl_do (EnableVertexAttribArray (attribLocationColor renderer)) g;
               g = gl_do (VertexAttribPointerWithOffset (attribLocationPosition renderer) 2 FLOAT
                            False (word_of_int (vertexSize layout))
                            (word_of_int (vertexOffsetPos layout))) g;
               g = gl_do (VertexAttribPointerWithOffset (attribLocationUV renderer) 2 FLOAT
                            False (word_of_int (vertexSize layout))
                            (word_of_int (vertexOffsetUv layout))) g;
               g = gl_do (VertexAttribPointerWithOffset (attribLocationColor renderer) 4
                            UNSIGNED_BYTE True (word_of_int (vertexSize layout))
                            (word_of_int (vertexOffsetCol layout))) g
           in (vaoHandle, g)))"

definition bytesPerUint32 :: int where
  "bytesPerUint32 = 4"

definition drawType_of :: "BufferLayout \<Rightarrow> uint32" where
  "drawType_of layout = (if indexSize layout = bytesPerUint32 then UNSIGNED_INT else UNSIGNED_SHORT)"

text \<open>The body of the inner loop of the block \<^verbatim>\<open>// Draw\<close>, for one command.\<close>

definition render_command :: "float32 \<Rightarrow> uint32 \<Rightarrow> int \<Rightarrow> DrawCommand \<Rightarrow> gl \<Rightarrow> gl" where
  "render_command fbHeight drawType indexSize' cmd g =
     (case UserCallback cmd of
        Some callback \<Rightarrow> gl_do (CallUserCallback callback) g
      | None \<Rightarrow>
          (let g = gl_do (BindTexture TEXTURE_2D (ucast (TextureID cmd))) g;
               clipRect = ClipRect cmd;
               g = gl_do (Scissor (int32_of_float32 (Vec4_X clipRect))
                            (int32_of_float32 fbHeight - int32_of_float32 (Vec4_W clipRect))
                            (int32_of_float32 (Vec4_Z clipRect - Vec4_X clipRect))
                            (int32_of_float32 (Vec4_W clipRect - Vec4_Y clipRect))) g;
               g = gl_do (DrawElementsBaseVertexWithOffset TRIANGLES
                            (word_of_int (ElementCount cmd)) drawType
                            (word_of_int (IndexOffset cmd * indexSize'))
                            (word_of_int (VertexOffset cmd))) g
           in g))"

text \<open>The body of the outer loop, for one command list, and the loop.\<close>

definition render_list :: "OpenGL3 \<Rightarrow> float32 \<Rightarrow> uint32 \<Rightarrow> int \<Rightarrow> DrawList \<Rightarrow> gl \<Rightarrow> gl" where
  "render_list renderer fbHeight drawType indexSize' list g =
     (let g = gl_do (BindBuffer ARRAY_BUFFER (vboHandle renderer)) g;
          g = gl_do (BufferData ARRAY_BUFFER (snd (VertexBuffer list)) (fst (VertexBuffer list))
                       STREAM_DRAW) g;
          g = gl_do (BindBuffer ELEMENT_ARRAY_BUFFER (elementsHandle renderer)) g;
          g = gl_do (BufferData ELEMENT_ARRAY_BUFFER (snd (IndexBuffer list)) (fst (IndexBuffer list))
                       STREAM_DRAW) g
      in fold (render_command fbHeight drawType indexSize') (Commands list) g)"

definition render_draw_data ::
    "OpenGL3 \<Rightarrow> float32 \<Rightarrow> uint32 \<Rightarrow> int \<Rightarrow> DrawData \<Rightarrow> gl \<Rightarrow> gl" where
  "render_draw_data renderer fbHeight drawType indexSize' drawData g =
     fold (render_list renderer fbHeight drawType indexSize') (CommandLists drawData) g"

text \<open>The block \<^verbatim>\<open>// Restore modified GL state\<close>.\<close>

definition restore_gl_state :: "gl_backup \<Rightarrow> gl \<Rightarrow> gl" where
  "restore_gl_state b g =
     (let g = gl_do (UseProgram (lastProgram b)) g;
          g = gl_do (BindTexture TEXTURE_2D (lastTexture b)) g;
          g = gl_do (BindSampler 0 (lastSampler b)) g;
          g = gl_do (ActiveTexture (lastActiveTexture b)) g;
          g = gl_do (BindVertexArray (lastVertexArray b)) g;
          g = gl_do (BindBuffer ARRAY_BUFFER (lastArrayBuffer b)) g;
          g = gl_do (BindBuffer ELEMENT_ARRAY_BUFFER (lastElementArrayBuffer b)) g;
          g = gl_do (BlendEquationSeparate (lastBlendEquationRgb b) (lastBlendEquationAlpha b)) g;
          g = gl_do (BlendFuncSeparate (lastBlendSrcRgb b) (lastBlendDstRgb b)
                       (lastBlendSrcAlpha b) (lastBlendDstAlpha b)) g;
          g = (if lastEnableBlend b then gl_do (Enable BLEND) g else gl_do (Disable BLEND) g);
          g = (if lastEnableCullFace b then gl_do (Enable CULL_FACE) g
               else gl_do (Disable CULL_FACE) g);
          g = (if lastEnableDepthTest b then gl_do (Enable DEPTH_TEST) g
               else gl_do (Disable DEPTH_TEST) g);
          g = (if lastEnableScissorTest b then gl_do (Enable SCISSOR_TEST) g
               else gl_do (Disable SCISSOR_TEST) g);
          g = gl_do (PolygonMode FRONT_AND_BACK (lastPolygonMode b ! 0)) g;
          g = gl_do (Viewport (lastViewport b ! 0) (lastViewport b ! 1)
                       (lastViewport b ! 2) (lastViewport b ! 3)) g;
          g = gl_do (Scissor (lastScissorBox b ! 0) (lastScissorBox b ! 1)
                       (lastScissorBox b ! 2) (lastScissorBox b ! 3)) g
      in g)"

text \<open>
  \<^verbatim>\<open>Render\<close>. The draw data is scaled in place by \<^verbatim>\<open>ScaleClipRects\<close> before
  anything else is done with it.
\<close>

definition Render ::
    "BufferLayout \<Rightarrow> OpenGL3 \<Rightarrow> float32 \<times> float32 \<Rightarrow> float32 \<times> float32 \<Rightarrow> DrawData \<Rightarrow> gl \<Rightarrow> gl" where
  "Render layout renderer displaySize framebufferSize drawData g =
     (let displayWidth = fst displaySize; displayHeight = snd displaySize;
          fbWidth = fst framebufferSize; fbHeight = snd framebufferSize
      in if fbWidth \<le> 0 \<or> fbHeight \<le> 0 then g
         else
           (let drawData = ScaleClipRects (Vec2 (fbWidth / displayWidth) (fbHeight / displayHeight))
                             drawData
            in case backup_gl_state g of
                 (b, g) \<Rightarrow>
                   (let g = setup_render_state renderer displayWidth displayHeight fbWidth fbHeight g
                    in case setup_vertex_array layout renderer g of
                         (vaoHandle, g) \<Rightarrow>
                           (let indexSize' = indexSize layout;
                                drawType = drawType_of layout;
                                g = render_draw_data renderer fbHeight drawType indexSize' drawData g;
                                g = gl_do (DeleteVertexArrays vaoHandle) g
                            in restore_gl_state b g))))"

subsection \<open>Creation and release of the device objects\<close>







definition invalidateDeviceObjects :: "OpenGL3 \<times> gl \<times> imgui_IO \<Rightarrow> OpenGL3 \<times> gl \<times> imgui_IO" where
  "invalidateDeviceObjects s =
     (case s of (renderer, g, imguiIO) \<Rightarrow>
        (let g = (if vboHandle renderer \<noteq> 0 then gl_do (DeleteBuffers (vboHandle renderer)) g else g);
             renderer = renderer\<lparr>vboHandle := 0\<rparr>;
             g = (if elementsHandle renderer \<noteq> 0
                  then gl_do (DeleteBuffers (elementsHandle renderer)) g else g);
             renderer = renderer\<lparr>elementsHandle := 0\<rparr>;
             g = (if shaderHandle renderer \<noteq> 0 \<and> vertHandle renderer \<noteq> 0
                  then gl_do (DetachShader (shaderHandle renderer) (vertHandle renderer)) g else g);
             g = (if vertHandle renderer \<noteq> 0 then gl_do (DeleteShader (vertHandle renderer)) g else g);
             renderer = renderer\<lparr>vertHandle := 0\<rparr>;
             g = (if shaderHandle renderer \<noteq> 0 \<and> fragHandle renderer \<noteq> 0
                  then gl_do (DetachShader (shaderHandle renderer) (fragHandle renderer)) g else g);
             g = (if fragHandle renderer \<noteq> 0 then gl_do (DeleteShader (fragHandle renderer)) g else g);
             renderer = renderer\<lparr>fragHandle := 0\<rparr>;
             g = (if shaderHandle renderer \<noteq> 0
                  then gl_do (DeleteProgram (shaderHandle renderer)) g else g);
             renderer = renderer\<lparr>shaderHandle := 0\<rparr>
         in if fontTexture renderer \<noteq> 0
            then (renderer\<lparr>fontTexture := 0\<rparr>,
                  gl_do (DeleteTextures (fontTexture renderer)) g,
                  io_call (FontsSetTextureID 0) (imguiIO\<lparr>FontsTextureID := 0\<rparr>))
            else (renderer, g, imguiIO)))"

definition OpenGL3_Dispose :: "OpenGL3 \<times> gl \<times> imgui_IO \<Rightarrow> OpenGL3 \<times> gl \<times> imgui_IO" where
  "OpenGL3_Dispose s = invalidateDeviceObjects s"

subsection \<open>The translation of draw commands, as specified\<close>

text \<open>
  What the specification says of the translation of draw data, written out: a command
  without a user callback binds its texture, sets its scissor rectangle and issues one
  \<^verbatim>\<open>DrawElements\<close> call with its element count, its index offset times the index size,
  and its vertex offset; a command with a user callback invokes the callback and nothing
  else. A command list uploads its two buffers and then translates its commands in order.
\<close>

definition spec_draw_call :: "uint32 \<Rightarrow> int \<Rightarrow> DrawCommand \<Rightarrow> gl_call" where
  "spec_draw_call drawType indexSize' cmd =
     DrawElementsBaseVertexWithOffset TRIANGLES (word_of_int (ElementCount cmd)) drawType
       (word_of_int (IndexOffset cmd * indexSize')) (word_of_int (VertexOffset cmd))"

definition spec_scissor_call :: "float32 \<Rightarrow> DrawCommand \<Rightarrow> gl_call" where
  "spec_scissor_call fbHeight cmd =
     Scissor (int32_of_float32 (Vec4_X (ClipRect cmd)))
       (int32_of_float32 fbHeight - int32_of_float32 (Vec4_W (ClipRect cmd)))
       (int32_of_float32 (Vec4_Z (ClipRect cmd) - Vec4_X (ClipRect cmd)))
       (int32_of_float32 (Vec4_W (ClipRect cmd) - Vec4_Y (ClipRect cmd)))"

definition spec_command_calls :: "float32 \<Rightarrow> uint32 \<Rightarrow> int \<Rightarrow> DrawCommand \<Rightarrow> gl_call list" where
  "spec_command_calls fbHeight drawType indexSize' cmd =
     (case UserCallback cmd of
        Some callback \<Rightarrow> [CallUserCallback callback]
      | None \<Rightarrow>
          [BindTexture TEXTURE_2D (ucast (TextureID cmd)),
           spec_scissor_call fbHeight cmd,
           spec_draw_call drawType indexSize' cmd])"

definition spec_list_calls ::
    "OpenGL3 \<Rightarrow> float32 \<Rightarrow> uint32 \<Rightarrow> int \<Rightarrow> DrawList \<Rightarrow> gl_call list" where
  "spec_list_calls renderer fbHeight drawType indexSize' list =
     [BindBuffer ARRAY_BUFFER (vboHandle renderer),
      BufferData ARRAY_BUFFER (snd (VertexBuffer list)) (fst (VertexBuffer list)) STREAM_DRAW,
      BindBuffer ELEMENT_ARRAY_BUFFER (elementsHandle renderer),
      BufferData ELEMENT_ARRAY_BUFFER (snd (IndexBuffer list)) (fst (IndexBuffer list)) STREAM_DRAW]
     @ concat (map (spec_command_calls fbHeight drawType indexSize') (Commands list))"

definition spec_draw_data_calls ::
    "OpenGL3 \<Rightarrow> float32 \<Rightarrow> uint32 \<Rightarrow> int \<Rightarrow> DrawData \<Rightarrow> gl_call list" where
  "spec_draw_data_calls renderer fbHeight drawType indexSize' drawData =
     concat (map (spec_list_calls renderer fbHeight drawType indexSize') (CommandLists drawData))"

text \<open>The draw calls and callback invocations among a list of calls.\<close>

fun is_draw_or_callback :: "gl_call \<Rightarrow> bool" where
  "is_draw_or_callback (DrawElementsBaseVertexWithOffset mode n xtype indices basevertex) = True"
| "is_draw_or_callback (CallUserCallback callback) = True"
| "is_draw_or_callback _ = False"

definition spec_draw_or_callback :: "uint32 \<Rightarrow> int \<Rightarrow> DrawCommand \<Rightarrow> gl_call" where
  "spec_draw_or_callback drawType indexSize' cmd =
     (case UserCallback cmd of
        Some callback \<Rightarrow> CallUserCallback callback
      | None \<Rightarrow> spec_draw_call drawType indexSize' cmd)"


subsection \<open>Concrete inputs\<close>

definition LINE :: uint32 where "LINE = 0x1B01"

definition gl_context_example :: gl_context where
  "gl_context_example =
     \<lparr>active_texture = TEXTURE0, current_program = 3,
      texture_binding_2d = (\<lambda>unit. if unit = 0 then 5 else 6),
      sampler_binding = (\<lambda>unit. 0),
      array_buffer_binding = 2, vertex_array_binding = 1,
      element_array_buffer_binding = (\<lambda>array. if array = 1 then 4 else 0),
      polygon_mode = LINE,
      viewport = (0, 0, 1280, 720), scissor_box = (10, 10, 100, 100),
      blend_src_rgb = 1, blend_dst_rgb = 0, blend_src_alpha = 1, blend_dst_alpha = 0,
      blend_equation_rgb = FUNC_ADD, blend_equation_alpha = FUNC_ADD,
      enabled = (\<lambda>cap. cap = DEPTH_TEST), next_name = 20\<rparr>"

definition gl_example :: gl where
  "gl_example =
     \<lparr>context = gl_context_example, calls = [], gl_Init_result = None,
      uniform_location = (\<lambda>name. 0), attrib_location = (\<lambda>name. 0)\<rparr>"

definition OpenGL3_example :: OpenGL3 where
  "OpenGL3_example =
     \<lparr>glslVersion = ''#version 150'', fontTexture = 16, shaderHandle = 11, vertHandle = 12,
      fragHandle = 13, attribLocationTex = 0, attribLocationProjMtx = 1,
      attribLocationPosition = 0, attribLocationUV = 1, attribLocationColor = 2,
      vboHandle = 14, elementsHandle = 15\<rparr>"

definition BufferLayout_example :: BufferLayout where
  "BufferLayout_example =
     \<lparr>vertexSize = 20, vertexOffsetPos = 0, vertexOffsetUv = 8, vertexOffsetCol = 16,
      indexSize = 2\<rparr>"

definition DrawCommand_example :: "uintptr \<Rightarrow> int \<Rightarrow> int \<Rightarrow> int \<Rightarrow> DrawCommand" where
  "DrawCommand_example texture elements indexOffset vertexOffset =
     \<lparr>UserCallback = None, TextureID = texture, ClipRect = Vec4 0 0 640 360,
      ElementCount = elements, IndexOffset = indexOffset, VertexOffset = vertexOffset\<rparr>"

definition Callback_example :: "(gl_context \<Rightarrow> gl_context) \<Rightarrow> DrawCommand" where
  "Callback_example callback =
     \<lparr>UserCallback = Some callback, TextureID = 0, ClipRect = Vec4 0 0 0 0,
      ElementCount = 0, IndexOffset = 0, VertexOffset = 0\<rparr>"

text \<open>
  Draw data of two command lists; the callback in the first list switches the depth
  test on and leaves the active texture unit alone.
\<close>

definition DrawData_example :: DrawData where
  "DrawData_example =
     \<lparr>CommandLists =
        [\<lparr>VertexBuffer = (1000, 80), IndexBuffer = (2000, 24),
          Commands = [DrawCommand_example 16 6 0 0,
                      Callback_example (exec (Enable DEPTH_TEST)),
                      DrawCommand_example 9 6 6 0]\<rparr>,
         \<lparr>VertexBuffer = (3000, 60), IndexBuffer = (4000, 6),
          Commands = [DrawCommand_example 16 3 0 4]\<rparr>]\<rparr>"


section \<open>Theorems\<close>

subsection \<open>Switch statements and key translation\<close>

lemmas ImguiKey_defs =
  KeyNone_def KeyTab_def KeyLeftArrow_def KeyRightArrow_def KeyUpArrow_def KeyDownArrow_def
  KeyPageUp_def KeyPageDown_def KeyHome_def KeyEnd_def KeyInsert_def KeyDelete_def KeyBackspace_def
  KeySpace_def KeyEnter_def KeyEscape_def KeyComma_def KeyPeriod_def KeySemicolon_def
  KeyCapsLock_def KeyScrollLock_def KeyNumLock_def KeyPrintScreen_def KeyPause_def KeyKeypad0_def
  KeyKeypad1_def KeyKeypad2_def KeyKeypad3_def KeyKeypad4_def KeyKeypad5_def KeyKeypad6_def
  KeyKeypad7_def KeyKeypad8_def KeyKeypad9_def KeyKeypadDecimal_def KeyKeypadDivide_def
  KeyKeypadMultiply_def KeyKeypadSubtract_def KeyKeypadAdd_def KeyKeypadEnter_def
  KeyKeypadEqual_def KeyLeftCtrl_def KeyLeftShift_def KeyLeftAlt_def KeyLeftSuper_def
  KeyRightCtrl_def KeyRightShift_def KeyRightAlt_def KeyRightSuper_def KeyMenu_def Key0_def
  Key1_def Key2_def Key3_def Key4_def Key5_def Key6_def Key7_def Key8_def Key9_def KeyA_def
  KeyB_def KeyC_def KeyD_def KeyE_def KeyF_def KeyG_def KeyH_def KeyI_def KeyJ_def KeyK_def
  KeyL_def KeyM_def KeyN_def KeyO_def KeyP_def KeyQ_def KeyR_def KeyS_def KeyT_def KeyU_def
  KeyV_def KeyW_def KeyX_def KeyY_def KeyZ_def KeyF1_def KeyF2_def KeyF3_def KeyF4_def KeyF5_def
  KeyF6_def KeyF7_def KeyF8_def KeyF9_def KeyF10_def KeyF11_def KeyF12_def KeyF13_def KeyF14_def
  KeyF15_def KeyF16_def KeyF17_def KeyF18_def KeyF19_def KeyF20_def KeyF21_def KeyF22_def
  KeyF23_def KeyF24_def KeyAppBack_def KeyAppForward_def KeyGraveAccent_def KeyMinus_def
  KeyEqual_def KeyLeftBracket_def KeyRightBracket_def KeyOem102_def KeyBackslash_def
  KeyApostrophe_def KeySlash_def KeyModCtrl_def KeyModShift_def KeyModAlt_def KeyModSuper_def

lemmas Keycode_defs =
  K_TAB_def K_LEFT_def K_RIGHT_def K_UP_def K_DOWN_def K_PAGEUP_def K_PAGEDOWN_def K_HOME_def
  K_END_def K_INSERT_def K_DELETE_def K_BACKSPACE_def K_SPACE_def K_RETURN_def K_ESCAPE_def
  K_COMMA_def K_PERIOD_def K_SEMICOLON_def K_CAPSLOCK_def K_SCROLLLOCK_def K_NUMLOCKCLEAR_def
  K_PRINTSCREEN_def K_PAUSE_def K_KP_0_def K_KP_1_def K_KP_2_def K_KP_3_def K_KP_4_def K_KP_5_def
  K_KP_6_def K_KP_7_def K_KP_8_def K_KP_9_def K_KP_PERIOD_def K_KP_DIVIDE_def K_KP_MULTIPLY_def
  K_KP_MINUS_def K_KP_PLUS_def K_KP_ENTER_def K_KP_EQUALS_def K_LCTRL_def K_LSHIFT_def K_LALT_def
  K_LGUI_def K_RCTRL_def K_RSHIFT_def K_RALT_def K_RGUI_def K_APPLICATION_def K_0_def K_1_def
  K_2_def K_3_def K_4_def K_5_def K_6_def K_7_def K_8_def K_9_def K_a_def K_b_def K_c_def K_d_def
  K_e_def K_f_def K_g_def K_h_def K_i_def K_j_def K_k_def K_l_def K_m_def K_n_def K_o_def K_p_def
  K_q_def K_r_def K_s_def K_t_def K_u_def K_v_def K_w_def K_x_def K_y_def K_z_def K_F1_def K_F2_def
  K_F3_def K_F4_def K_F5_def K_F6_def K_F7_def K_F8_def K_F9_def K_F10_def K_F11_def K_F12_def
  K_F13_def K_F14_def K_F15_def K_F16_def K_F17_def K_F18_def K_F19_def K_F20_def K_F21_def
  K_F22_def K_F23_def K_F24_def K_AC_BACK_def K_AC_FORWARD_def K_MINUS_def

lemmas Scancode_defs =
  SCANCODE_GRAVE_def SCANCODE_MINUS_def SCANCODE_EQUALS_def SCANCODE_LEFTBRACKET_def
  SCANCODE_RIGHTBRACKET_def SCANCODE_NONUSBACKSLASH_def SCANCODE_BACKSLASH_def
  SCANCODE_SEMICOLON_def SCANCODE_APOSTROPHE_def SCANCODE_COMMA_def SCANCODE_PERIOD_def
  SCANCODE_SLASH_def

lemmas Key_defs =
  glfw_KeyTab_def glfw_KeyLeft_def glfw_KeyRight_def glfw_KeyUp_def glfw_KeyDown_def
  glfw_KeyPageUp_def glfw_KeyPageDown_def glfw_KeyHome_def glfw_KeyEnd_def glfw_KeyInsert_def
  glfw_KeyDelete_def glfw_KeyBackspace_def glfw_KeySpace_def glfw_KeyEnter_def glfw_KeyEscape_def
  glfw_KeyApostrophe_def glfw_KeyComma_def glfw_KeyMinus_def glfw_KeyPeriod_def glfw_KeySlash_def
  glfw_KeySemicolon_def glfw_KeyEqual_def glfw_KeyLeftBracket_def glfw_KeyBackslash_def
  glfw_KeyWorld1_def glfw_KeyWorld2_def glfw_KeyRightBracket_def glfw_KeyGraveAccent_def
  glfw_KeyCapsLock_def glfw_KeyScrollLock_def glfw_KeyNumLock_def glfw_KeyPrintScreen_def
  glfw_KeyPause_def glfw_KeyKP0_def glfw_KeyKP1_def glfw_KeyKP2_def glfw_KeyKP3_def glfw_KeyKP4_def
  glfw_KeyKP5_def glfw_KeyKP6_def glfw_KeyKP7_def glfw_KeyKP8_def glfw_KeyKP9_def
  glfw_KeyKPDecimal_def glfw_KeyKPDivide_def glfw_KeyKPMultiply_def glfw_KeyKPSubtract_def
  glfw_KeyKPAdd_def glfw_KeyKPEnter_def glfw_KeyKPEqual_def glfw_KeyLeftShift_def
  glfw_KeyLeftControl_def glfw_KeyLeftAlt_def glfw_KeyLeftSuper_def glfw_KeyRightShift_def
  glfw_KeyRightControl_def glfw_KeyRightAlt_def glfw_KeyRightSuper_def glfw_KeyMenu_def
  glfw_Key0_def glfw_Key1_def glfw_Key2_def glfw_Key3_def glfw_Key4_def glfw_Key5_def glfw_Key6_def
  glfw_Key7_def glfw_Key8_def glfw_Key9_def glfw_KeyA_def glfw_KeyB_def glfw_KeyC_def glfw_KeyD_def
  glfw_KeyE_def glfw_KeyF_def glfw_KeyG_def glfw_KeyH_def glfw_KeyI_def glfw_KeyJ_def glfw_KeyK_def
  glfw_KeyL_def glfw_KeyM_def glfw_KeyN_def glfw_KeyO_def glfw_KeyP_def glfw_KeyQ_def glfw_KeyR_def
  glfw_KeyS_def glfw_KeyT_def glfw_KeyU_def glfw_KeyV_def glfw_KeyW_def glfw_KeyX_def glfw_KeyY_def
  glfw_KeyZ_def glfw_KeyF1_def glfw_KeyF2_def glfw_KeyF3_def glfw_KeyF4_def glfw_KeyF5_def
  glfw_KeyF6_def glfw_KeyF7_def glfw_KeyF8_def glfw_KeyF9_def glfw_KeyF10_def glfw_KeyF11_def
  glfw_KeyF12_def glfw_KeyF13_def glfw_KeyF14_def glfw_KeyF15_def glfw_KeyF16_def glfw_KeyF17_def
  glfw_KeyF18_def glfw_KeyF19_def glfw_KeyF20_def glfw_KeyF21_def glfw_KeyF22_def glfw_KeyF23_def
  glfw_KeyF24_def

lemma go_switch_None: "go_switch cs tag = None \<longleftrightarrow> tag \<notin> set (map fst cs)"
  by (induction cs) (force split: if_splits)+

lemma go_switch_Some: "tag \<in> set (map fst cs) \<Longrightarrow> \<exists>v. go_switch cs tag = Some v"
  using go_switch_None [of cs tag] by (cases "go_switch cs tag") auto

lemma sdl2_unmapped:
  assumes "keycode \<notin> set sdl2_mapped_keycodes"
  shows "sdl2KeyEventToImguiKey keycode scancode =
         (case go_switch sdl2_scancode_cases scancode of Some k \<Rightarrow> k | None \<Rightarrow> KeyNone)"
proof -
  have "go_switch sdl2_keycode_cases keycode = None"
    using assms by (simp add: go_switch_None sdl2_mapped_keycodes_def)
  then show ?thesis by (simp add: sdl2KeyEventToImguiKey_def)
qed

lemma sdl2_mapped:
  assumes "keycode \<in> set sdl2_mapped_keycodes"
  shows "go_switch sdl2_keycode_cases keycode = Some (sdl2KeyEventToImguiKey keycode scancode)"
proof -
  obtain v where "go_switch sdl2_keycode_cases keycode = Some v"
    using assms go_switch_Some [of keycode sdl2_keycode_cases]
    by (auto simp: sdl2_mapped_keycodes_def)
  then show ?thesis by (simp add: sdl2KeyEventToImguiKey_def)
qed

lemma K_MINUS_unmapped: "K_MINUS \<notin> set sdl2_mapped_keycodes"
  by (simp add: sdl2_mapped_keycodes_def sdl2_keycode_cases_def Keycode_defs)

lemma K_a_mapped: "K_a \<in> set sdl2_mapped_keycodes"
  by (simp add: sdl2_mapped_keycodes_def sdl2_keycode_cases_def)

lemma scancode_0_no_fallback: "0 \<notin> set sdl2_fallback_scancodes"
  by (simp add: sdl2_fallback_scancodes_def sdl2_scancode_cases_def Scancode_defs)

lemma glfw_key_unknown_unmapped: "- 1 \<notin> set glfw_mapped_keys"
  by (simp add: glfw_mapped_keys_def glfw_key_cases_def Key_defs)

text \<open>
  C1. A key event whose key code has no \<^verbatim>\<open>case\<close> translates to \<^const>\<open>KeyNone\<close>:
  for SDL when, in addition, the scancode has no \<^verbatim>\<open>case\<close> in the fallback
  \<^verbatim>\<open>switch\<close>; for GLFW whatever the scancode.
\<close>

theorem unmapped_key_is_KeyNone:
  "(keycode \<notin> set sdl2_mapped_keycodes \<longrightarrow> scancode \<notin> set sdl2_fallback_scancodes \<longrightarrow>
      sdl2KeyEventToImguiKey keycode scancode = KeyNone)
   \<and> (key \<notin> set glfw_mapped_keys \<longrightarrow> glfwKeyEventToImguiKey key glfw_scancode = KeyNone)"
proof (intro conjI impI)
  assume k: "keycode \<notin> set sdl2_mapped_keycodes"
    and s: "scancode \<notin> set sdl2_fallback_scancodes"
  have "go_switch sdl2_scancode_cases scancode = None"
    using s by (simp add: go_switch_None sdl2_fallback_scancodes_def)
  then show "sdl2KeyEventToImguiKey keycode scancode = KeyNone"
    by (simp add: sdl2_unmapped [OF k])
next
  assume "key \<notin> set glfw_mapped_keys"
  then have "go_switch glfw_key_cases key = None"
    by (simp add: go_switch_None glfw_mapped_keys_def)
  then show "glfwKeyEventToImguiKey key glfw_scancode = KeyNone"
    by (simp add: glfwKeyEventToImguiKey_def)
qed

theorem unmapped_key_is_KeyNone_witness:
  "K_MINUS \<notin> set sdl2_mapped_keycodes \<and> 0 \<notin> set sdl2_fallback_scancodes
   \<and> sdl2KeyEventToImguiKey K_MINUS 0 = KeyNone
   \<and> - 1 \<notin> set glfw_mapped_keys \<and> glfwKeyEventToImguiKey (- 1) 0 = KeyNone"
  using unmapped_key_is_KeyNone [of K_MINUS 0 "- 1" 0]
    K_MINUS_unmapped scancode_0_no_fallback glfw_key_unknown_unmapped
  by blast

text \<open>
  C4, as stated, fails for SDL: the key code of the minus key has no \<^verbatim>\<open>case\<close> (it is
  commented out), so its translation is that of the scancode. With the scancode of the
  minus key of a US keyboard it is \<^const>\<open>KeyMinus\<close>, with the scancode of the slash key
  (where other layouts have the minus) it is \<^const>\<open>KeySlash\<close>.
\<close>

theorem sdl2_key_depends_on_scancode:
  "sdl2KeyEventToImguiKey K_MINUS SCANCODE_MINUS \<noteq> sdl2KeyEventToImguiKey K_MINUS SCANCODE_SLASH"
proof -
  have "sdl2KeyEventToImguiKey K_MINUS SCANCODE_MINUS = KeyMinus"
    by (simp add: sdl2_unmapped [OF K_MINUS_unmapped] sdl2_scancode_cases_def Scancode_defs)
  moreover have "sdl2KeyEventToImguiKey K_MINUS SCANCODE_SLASH = KeySlash"
    by (simp add: sdl2_unmapped [OF K_MINUS_unmapped] sdl2_scancode_cases_def Scancode_defs)
  moreover have "KeyMinus \<noteq> KeySlash"
    by (simp add: KeyMinus_def KeySlash_def)
  ultimately show ?thesis by simp
qed

text \<open>
  C4, amended. For GLFW the translation is a function of the key alone. For SDL it is a
  function of the key code alone for every key code that has a \<^verbatim>\<open>case\<close>; every
  other key code translates as the scancode alone decides.
\<close>

theorem key_translation_dependence:
  "glfwKeyEventToImguiKey key sc1 = glfwKeyEventToImguiKey key sc2
   \<and> (keycode \<in> set sdl2_mapped_keycodes \<longrightarrow>
        sdl2KeyEventToImguiKey keycode scancode1 = sdl2KeyEventToImguiKey keycode scancode2)
   \<and> (keycode \<notin> set sdl2_mapped_keycodes \<longrightarrow> keycode' \<notin> set sdl2_mapped_keycodes \<longrightarrow>
        sdl2KeyEventToImguiKey keycode scancode = sdl2KeyEventToImguiKey keycode' scancode)"
proof (intro conjI impI)
  show "glfwKeyEventToImguiKey key sc1 = glfwKeyEventToImguiKey key sc2"
    by (simp add: glfwKeyEventToImguiKey_def)
next
  assume "keycode \<in> set sdl2_mapped_keycodes"
  from sdl2_mapped [OF this, of scancode1] sdl2_mapped [OF this, of scancode2]
  show "sdl2KeyEventToImguiKey keycode scancode1 = sdl2KeyEventToImguiKey keycode scancode2"
    by simp
next
  assume "keycode \<notin> set sdl2_mapped_keycodes" and "keycode' \<notin> set sdl2_mapped_keycodes"
  then show "sdl2KeyEventToImguiKey keycode scancode = sdl2KeyEventToImguiKey keycode' scancode"
    by (simp add: sdl2_unmapped)
qed

theorem key_translation_dependence_witness:
  "glfwKeyEventToImguiKey glfw_KeyA 30 = glfwKeyEventToImguiKey glfw_KeyA 38
   \<and> K_a \<in> set sdl2_mapped_keycodes
   \<and> sdl2KeyEventToImguiKey K_a 4 = sdl2KeyEventToImguiKey K_a 20
   \<and> K_MINUS \<notin> set sdl2_mapped_keycodes \<and> 0 \<notin> set sdl2_mapped_keycodes
   \<and> sdl2KeyEventToImguiKey K_MINUS SCANCODE_MINUS = sdl2KeyEventToImguiKey 0 SCANCODE_MINUS"
proof -
  have z: "0 \<notin> set sdl2_mapped_keycodes"
    by (simp add: sdl2_mapped_keycodes_def sdl2_keycode_cases_def Keycode_defs)
  show ?thesis
    using key_translation_dependence [of glfw_KeyA 30 38 K_a 4 20]
      key_translation_dependence [of glfw_KeyA 30 38 K_MINUS 4 20 0 SCANCODE_MINUS]
      K_a_mapped K_MINUS_unmapped z
    by blast
qed

subsection \<open>Mouse wheel\<close>

lemma wheel_delta_sgn: "wheel_delta v = real_of_int (sgn (sint v))"
  by (simp add: wheel_delta_def word_sless_alt sgn_if)

text \<open>
  C5, as stated, fails for SDL: a wheel event with deltas \<open>3\<close> and \<open>-2\<close> reaches the IO
  object as \<open>1\<close> and \<open>-1\<close>.
\<close>

theorem sdl_wheel_not_passed_through:
  "io_calls (io (snd (processEvent (MOUSEWHEEL 3 (- 2)) (SDL_example, sdl_world_ok))))
     = [AddMouseWheelDelta 1 (- 1)]
   \<and> AddMouseWheelDelta 1 (- 1) \<noteq> AddMouseWheelDelta (float32_of_int32 3) (float32_of_int32 (- 2))"
  by (simp add: wheel_delta_def sdl_io_def io_call_def sdl_world_ok_def imgui_IO_initial_def
      float32_of_int32_def word_sless_alt)

text \<open>
  C5, amended. Every mouse-wheel event leads to exactly one \<^verbatim>\<open>AddMouseWheelDelta\<close> call.
  GLFW forwards the two offsets, each converted from \<^verbatim>\<open>float64\<close> to \<^verbatim>\<open>float32\<close>;
  SDL forwards the sign of each delta (\<open>1\<close>, \<open>0\<close> or \<open>-1\<close>) and not its magnitude.
\<close>

theorem mouse_wheel_forwarding:
  "io_calls (glfw_io (snd (mouseScrollChange x y (glfw_platform, gw))))
     = io_calls (glfw_io gw) @ [AddMouseWheelDelta (float32_of_float64 x) (float32_of_float64 y)]
   \<and> io_calls (io (snd (processEvent (MOUSEWHEEL X Y) (platform, w))))
     = io_calls (io w)
       @ [AddMouseWheelDelta (real_of_int (sgn (sint X))) (real_of_int (sgn (sint Y)))]"
  by (simp add: mouseScrollChange_def glfw_io_call_def io_call_def sdl_io_def wheel_delta_sgn)

theorem mouse_wheel_forwarding_witness:
  "io_calls (glfw_io (snd (mouseScrollChange (1 / 2) (- 3) (GLFW_example, glfw_world_ok))))
     = [AddMouseWheelDelta (float32_of_float64 (1 / 2)) (float32_of_float64 (- 3))]
   \<and> io_calls (io (snd (processEvent (MOUSEWHEEL 0 120) (SDL_example, sdl_world_ok))))
     = [AddMouseWheelDelta 0 1]"
  using mouse_wheel_forwarding [of "1 / 2" "- 3" GLFW_example glfw_world_ok 0 120 SDL_example sdl_world_ok]
  by (simp add: glfw_world_ok_def sdl_world_ok_def imgui_IO_initial_def)

subsection \<open>The stop flag\<close>

lemma process_pending_shouldStop:
  "shouldStop (fst pw) \<Longrightarrow> shouldStop (fst (process_pending events pw))"
proof (induction events arbitrary: pw)
  case Nil
  then show ?case by simp
next
  case (Cons e es)
  obtain p w where pw: "pw = (p, w)" by (cases pw)
  have "shouldStop (fst (processEvent e (p, w)))"
    using Cons.prems pw by (cases e) (simp_all add: Let_def)
  then show ?case using Cons.IH pw by simp
qed

lemma NewFrame_buttons_shouldStop:
  "shouldStop (fst (NewFrame_buttons state bs pw)) = shouldStop (fst pw)"
proof (induction bs arbitrary: pw)
  case Nil
  then show ?case by simp
next
  case (Cons b bs)
  obtain i button where b: "b = (i, button)" by (cases b)
  obtain p w where pw: "pw = (p, w)" by (cases pw)
  show ?case using Cons.IH by (simp add: b pw)
qed

lemma sdl_step_shouldStop:
  assumes "shouldStop (fst pw)"
  shows "shouldStop (fst (sdl_step op pw))"
proof -
  obtain p w where pw: "pw = (p, w)" by (cases pw)
  show ?thesis
  proof (cases op)
    case Op_Dispose
    then show ?thesis using assms pw by (simp add: Dispose_def split: option.splits)
  next
    case Op_ProcessEvents
    then show ?thesis using assms pw by (simp add: ProcessEvents_def process_pending_shouldStop)
  next
    case (Op_processEvent e)
    have "shouldStop (fst (process_pending [e] pw))"
      using assms by (rule process_pending_shouldStop)
    then show ?thesis using Op_processEvent by simp
  next
    case Op_NewFrame
    then show ?thesis using assms pw
      by (simp add: NewFrame_def Let_def NewFrame_buttons_shouldStop split: prod.splits)
  next
    case Op_PostRender
    then show ?thesis using assms pw by (simp add: PostRender_def)
  next
    case (Op_SetClipboardText t)
    then show ?thesis using assms pw by (simp add: SetClipboardText_def)
  qed (use assms in simp_all)
qed

lemma sdl_run_shouldStop:
  "shouldStop (fst pw) \<Longrightarrow> shouldStop (fst (sdl_run ops pw))"
  by (induction ops arbitrary: pw) (simp_all add: sdl_step_shouldStop)

text \<open>
  C9. After the platform has processed a \<^verbatim>\<open>QUIT\<close> event, \<^verbatim>\<open>ShouldStop\<close> returns
  true after every sequence of operations of the platform and steps of the environment.
\<close>

theorem shouldStop_is_permanent:
  "ShouldStop (fst (sdl_run ops (processEvent QUIT pw)))"
proof -
  have "shouldStop (fst (processEvent QUIT pw))"
    by (cases pw) simp
  then show ?thesis
    unfolding ShouldStop_def by (rule sdl_run_shouldStop)
qed

theorem shouldStop_is_permanent_witness:
  "ShouldStop (fst (sdl_run [Op_NewFrame, Op_ProcessEvents, Op_PostRender, Op_Dispose]
                     (processEvent QUIT (SDL_example, sdl_world_ok))))
   \<and> \<not> ShouldStop SDL_example"
  using shouldStop_is_permanent
    [of "[Op_NewFrame, Op_ProcessEvents, Op_PostRender, Op_Dispose]" "(SDL_example, sdl_world_ok)"]
  by (simp add: ShouldStop_def SDL_example_def)

subsection \<open>Construction of the platforms\<close>

lemmas sdl_lib_defs =
  Init_def Quit_def CreateWindow_def Window_Destroy_def GLSetAttribute_def GLCreateContext_def
  GLMakeCurrent_def GLSetSwapInterval_def sdl_log_def






subsection \<open>Failure of \<^const>\<open>NewSDL\<close> after the initialisation of SDL\<close>

lemma NewSDL_context_failure:
  assumes "snd (fst (NewSDL_context p win w)) \<noteq> None" and "window p = Some win"
  shows "\<not> initialised (snd (NewSDL_context p win w))
    \<and> windows (snd (NewSDL_context p win w)) = []
    \<and> last_calls 1 (sdl_calls (snd (NewSDL_context p win w))) = [sdl_Quit]
    \<and> last_calls 2 (sdl_calls (snd (NewSDL_context p win w))) = [sdl_Window_Destroy win, sdl_Quit]
    \<and> set (gl_contexts w) \<subseteq> set (gl_contexts (snd (NewSDL_context p win w)))
    \<and> (\<forall>ctx. GLCreateContext_result w = Inr ctx \<longrightarrow>
          gl_contexts (snd (NewSDL_context p win w)) = ctx # gl_contexts w)"
  using assms
  by (auto simp: NewSDL_context_def Dispose_def sdl_lib_defs Let_def last_calls_def
      split: sum.splits option.splits)

text \<open>
  C7, as stated, fails when making the OpenGL context current fails: the context that
  \<^verbatim>\<open>GLCreateContext\<close> returned is still live when \<^const>\<open>NewSDL\<close> returns the error.
\<close>

theorem NewSDL_leaves_context_live:
  "fst (NewSDL SDLClientAPIOpenGL3
          (sdl_world_ok\<lparr>GLMakeCurrent_result := Some (LibraryError ''no current context'')\<rparr>))
     = (None, Some (Errorf ''failed to set current OpenGL context: ''
                      (LibraryError ''no current context'')))
   \<and> gl_contexts (snd (NewSDL SDLClientAPIOpenGL3
          (sdl_world_ok\<lparr>GLMakeCurrent_result := Some (LibraryError ''no current context'')\<rparr>)))
     = [7]"
  by (simp add: NewSDL_def NewSDL_context_def Dispose_def sdl_lib_defs Let_def sdl_world_ok_def
      SDLClientAPIOpenGL2_def SDLClientAPIOpenGL3_def mouseButtonCount_def)

text \<open>
  C7, amended. Whenever \<^const>\<open>NewSDL\<close> fails after SDL has been initialised, it has
  destroyed the created window (if any) and then shut SDL down: its last call is
  \<^verbatim>\<open>sdl.Quit\<close>, preceded by \<^verbatim>\<open>Destroy\<close> of the window if one was created; no window
  is live and SDL is not initialised. It deletes no OpenGL context: every context that was
  live stays live, and when the failure is that of \<^verbatim>\<open>GLMakeCurrent\<close> the context just
  created is live too.
\<close>

theorem NewSDL_failure_cleanup:
  assumes "Init_result w = None" and "snd (fst (NewSDL clientAPI w)) \<noteq> None"
  shows "\<not> initialised (snd (NewSDL clientAPI w))
    \<and> windows (snd (NewSDL clientAPI w)) = []
    \<and> last_calls 1 (sdl_calls (snd (NewSDL clientAPI w))) = [sdl_Quit]
    \<and> (\<forall>win. CreateWindow_result w = Inr win \<longrightarrow>
          last_calls 2 (sdl_calls (snd (NewSDL clientAPI w))) = [sdl_Window_Destroy win, sdl_Quit])
    \<and> set (gl_contexts w) \<subseteq> set (gl_contexts (snd (NewSDL clientAPI w)))
    \<and> (\<forall>win ctx. CreateWindow_result w = Inr win \<longrightarrow> GLCreateContext_result w = Inr ctx \<longrightarrow>
          clientAPI = SDLClientAPIOpenGL2 \<or> clientAPI = SDLClientAPIOpenGL3 \<longrightarrow>
          gl_contexts (snd (NewSDL clientAPI w)) = ctx # gl_contexts w)"
proof (cases "CreateWindow_result w")
  case (Inl l)
  then show ?thesis using assms(1)
    by (simp add: NewSDL_def sdl_lib_defs last_calls_def)
next
  case (Inr win)
  define p where "p = \<lparr>window = Some win, shouldStop = False, time = 0,
                        buttonsDown = replicate mouseButtonCount False\<rparr>"
  have wp: "window p = Some win" by (simp add: p_def)
  consider (gl2) "clientAPI = SDLClientAPIOpenGL2"
    | (gl3) "clientAPI \<noteq> SDLClientAPIOpenGL2" "clientAPI = SDLClientAPIOpenGL3"
    | (other) "clientAPI \<noteq> SDLClientAPIOpenGL2" "clientAPI \<noteq> SDLClientAPIOpenGL3"
    by blast
  then show ?thesis
  proof cases
    case gl2
    obtain w' where eq: "NewSDL clientAPI w = NewSDL_context p win w'"
      and r: "GLCreateContext_result w' = GLCreateContext_result w"
             "gl_contexts w' = gl_contexts w"
      using assms(1) Inr gl2 by (simp add: NewSDL_def sdl_lib_defs Let_def p_def)
    from NewSDL_context_failure [of p win w'] assms(2) eq r wp Inr
    show ?thesis by (simp add: last_calls_def)
  next
    case gl3
    obtain w' where eq: "NewSDL clientAPI w = NewSDL_context p win w'"
      and r: "GLCreateContext_result w' = GLCreateContext_result w"
             "gl_contexts w' = gl_contexts w"
      using assms(1) Inr gl3 by (simp add: NewSDL_def sdl_lib_defs Let_def p_def)
    from NewSDL_context_failure [of p win w'] assms(2) eq r wp Inr
    show ?thesis by (simp add: last_calls_def)
  next
    case other
    then show ?thesis using assms(1) Inr
      by (simp add: NewSDL_def Dispose_def sdl_lib_defs Let_def last_calls_def)
  qed
qed

theorem NewSDL_failure_cleanup_witness:
  "Init_result (sdl_world_ok\<lparr>GLCreateContext_result := Inl (LibraryError ''no GL'')\<rparr>) = None
   \<and> snd (fst (NewSDL SDLClientAPIOpenGL2
        (sdl_world_ok\<lparr>GLCreateContext_result := Inl (LibraryError ''no GL'')\<rparr>))) \<noteq> None
   \<and> \<not> initialised (snd (NewSDL SDLClientAPIOpenGL2
        (sdl_world_ok\<lparr>GLCreateContext_result := Inl (LibraryError ''no GL'')\<rparr>)))
   \<and> windows (snd (NewSDL SDLClientAPIOpenGL2
        (sdl_world_ok\<lparr>GLCreateContext_result := Inl (LibraryError ''no GL'')\<rparr>))) = []
   \<and> last_calls 2 (sdl_calls (snd (NewSDL SDLClientAPIOpenGL2
        (sdl_world_ok\<lparr>GLCreateContext_result := Inl (LibraryError ''no GL'')\<rparr>))))
       = [sdl_Window_Destroy 1, sdl_Quit]"
proof -
  let ?w = "sdl_world_ok\<lparr>GLCreateContext_result := Inl (LibraryError ''no GL'')\<rparr>"
  have i: "Init_result ?w = None" and c: "CreateWindow_result ?w = Inr 1"
    by (simp_all add: sdl_world_ok_def)
  have f: "snd (fst (NewSDL SDLClientAPIOpenGL2 ?w)) \<noteq> None"
    by (simp add: NewSDL_def NewSDL_context_def Dispose_def sdl_lib_defs Let_def sdl_world_ok_def)
  from NewSDL_failure_cleanup [OF i f] i c f show ?thesis by simp
qed

subsection \<open>Calls and context of the binding\<close>

lemma calls_gl_do [simp]: "calls (gl_do call g) = calls g @ [call]"
  by (simp add: gl_do_def)

lemma context_gl_do [simp]: "context (gl_do call g) = exec call (context g)"
  by (simp add: gl_do_def)

lemma gl_gen_simps [simp]:
  "fst (gl_gen create g) = next_name (context g)"
  "snd (gl_gen create g) = gl_do (create (next_name (context g))) g"
  by (simp_all add: gl_gen_def)

lemma backup_gl_state_snd: "snd (backup_gl_state g) = gl_do (ActiveTexture TEXTURE0) g"
  by (simp add: backup_gl_state_def Let_def)



lemma Render_phases:
  assumes "0 < fst framebufferSize" and "0 < snd framebufferSize"
  shows "Render layout renderer displaySize framebufferSize drawData g =
     restore_gl_state (fst (backup_gl_state g))
       (gl_do (DeleteVertexArrays
                 (fst (setup_vertex_array layout renderer
                         (setup_render_state renderer (fst displaySize) (snd displaySize)
                            (fst framebufferSize) (snd framebufferSize)
                            (gl_do (ActiveTexture TEXTURE0) g)))))
          (render_draw_data renderer (snd framebufferSize) (drawType_of layout) (indexSize layout)
             (ScaleClipRects (Vec2 (fst framebufferSize / fst displaySize)
                                   (snd framebufferSize / snd displaySize)) drawData)
             (snd (setup_vertex_array layout renderer
                     (setup_render_state renderer (fst displaySize) (snd displaySize)
                        (fst framebufferSize) (snd framebufferSize)
                        (gl_do (ActiveTexture TEXTURE0) g))))))"
  using assms
  by (simp add: Render_def Let_def case_prod_beta backup_gl_state_snd not_le)

subsection \<open>The active texture unit during \<^const>\<open>Render\<close>\<close>










subsection \<open>Save and restore of the context state\<close>








subsection \<open>The calls issued for the draw data\<close>

lemma render_command_calls:
  "calls (render_command fbHeight drawType isz cmd g)
   = calls g @ spec_command_calls fbHeight drawType isz cmd"
  by (simp add: render_command_def spec_command_calls_def spec_scissor_call_def
      spec_draw_call_def Let_def split: option.splits)

lemma fold_render_command_calls:
  "calls (fold (render_command fbHeight drawType isz) cmds g)
   = calls g @ concat (map (spec_command_calls fbHeight drawType isz) cmds)"
  by (induction cmds arbitrary: g) (simp_all add: render_command_calls)

lemma render_list_calls:
  "calls (render_list renderer fbHeight drawType isz list g)
   = calls g @ spec_list_calls renderer fbHeight drawType isz list"
  by (simp add: render_list_def spec_list_calls_def Let_def fold_render_command_calls)

lemma fold_render_list_calls:
  "calls (fold (render_list renderer fbHeight drawType isz) ls g)
   = calls g @ concat (map (spec_list_calls renderer fbHeight drawType isz) ls)"
  by (induction ls arbitrary: g) (simp_all add: render_list_calls)

lemma render_draw_data_calls:
  "calls (render_draw_data renderer fbHeight drawType isz drawData g)
   = calls g @ spec_draw_data_calls renderer fbHeight drawType isz drawData"
  by (simp add: render_draw_data_def spec_draw_data_calls_def fold_render_list_calls)

lemma setup_render_state_calls:
  "\<exists>cs. calls (setup_render_state renderer dw dh fw fh g) = calls g @ cs
        \<and> filter is_draw_or_callback cs = []"
  by (simp add: setup_render_state_def Let_def)

lemma setup_vertex_array_calls:
  "\<exists>cs. calls (snd (setup_vertex_array layout renderer g)) = calls g @ cs
        \<and> filter is_draw_or_callback cs = []"
  by (simp add: setup_vertex_array_def Let_def case_prod_beta)

lemma restore_gl_state_calls:
  "\<exists>cs. calls (restore_gl_state b g) = calls g @ cs \<and> filter is_draw_or_callback cs = []"
  by (simp add: restore_gl_state_def Let_def)

lemma filter_spec_command_calls:
  "filter is_draw_or_callback (spec_command_calls fbHeight drawType isz cmd)
   = [spec_draw_or_callback drawType isz cmd]"
  by (simp add: spec_command_calls_def spec_draw_or_callback_def spec_scissor_call_def
      spec_draw_call_def split: option.splits)

lemma filter_spec_list_calls:
  "filter is_draw_or_callback (spec_list_calls renderer fbHeight drawType isz list)
   = map (spec_draw_or_callback drawType isz) (Commands list)"
proof -
  have "filter is_draw_or_callback (concat (map (spec_command_calls fbHeight drawType isz) cmds))
        = map (spec_draw_or_callback drawType isz) cmds" for cmds
    by (induction cmds) (simp_all add: filter_spec_command_calls)
  then show ?thesis by (simp add: spec_list_calls_def)
qed

lemma filter_spec_draw_data_calls:
  "filter is_draw_or_callback (spec_draw_data_calls renderer fbHeight drawType isz drawData)
   = concat (map (\<lambda>list. map (spec_draw_or_callback drawType isz) (Commands list))
               (CommandLists drawData))"
proof -
  have "filter is_draw_or_callback
          (concat (map (spec_list_calls renderer fbHeight drawType isz) ls))
        = concat (map (\<lambda>list. map (spec_draw_or_callback drawType isz) (Commands list)) ls)" for ls
    by (induction ls) (simp_all add: filter_spec_list_calls)
  then show ?thesis by (simp add: spec_draw_data_calls_def)
qed

lemma spec_draw_or_callback_ClipRect:
  "spec_draw_or_callback drawType isz (cmd\<lparr>ClipRect := r\<rparr>)
   = spec_draw_or_callback drawType isz cmd"
  by (simp add: spec_draw_or_callback_def spec_draw_call_def split: option.splits)

lemma spec_draw_or_callback_scaled:
  "concat (map (\<lambda>list. map (spec_draw_or_callback drawType isz) (Commands list))
             (CommandLists (ScaleClipRects scale drawData)))
   = concat (map (\<lambda>list. map (spec_draw_or_callback drawType isz) (Commands list))
               (CommandLists drawData))"
  by (simp add: ScaleClipRects_def comp_def spec_draw_or_callback_ClipRect)

text \<open>
  C6. With a positive framebuffer size, the calls that \<^const>\<open>Render\<close> issues are some
  calls that set up, then for the command lists in order and for the commands of each in
  order the calls that the specification gives (texture binding, scissor rectangle and one
  draw call with the command's element count, index offset times index size and vertex
  offset for a command without a callback; the invocation of the callback and nothing
  else for a command with one), then some calls that restore; the calls that set up and
  restore contain no draw call and no callback invocation. The scissor rectangle is that
  of the command after the scaling that \<^const>\<open>Render\<close> applies first. So the draw
  calls and callback invocations of \<^const>\<open>Render\<close> are, in order, one per command.
\<close>

theorem Render_translates_draw_data:
  assumes "0 < fst framebufferSize" and "0 < snd framebufferSize"
  shows "(\<exists>pre post.
            calls (Render layout renderer displaySize framebufferSize drawData g)
              = calls g @ pre
                @ spec_draw_data_calls renderer (snd framebufferSize) (drawType_of layout)
                    (indexSize layout)
                    (ScaleClipRects (Vec2 (fst framebufferSize / fst displaySize)
                                          (snd framebufferSize / snd displaySize)) drawData)
                @ post
            \<and> filter is_draw_or_callback pre = []
            \<and> filter is_draw_or_callback post = [])
    \<and> filter is_draw_or_callback
          (calls (Render layout renderer displaySize framebufferSize drawData g))
        = filter is_draw_or_callback (calls g)
          @ concat (map (\<lambda>list. map (spec_draw_or_callback (drawType_of layout) (indexSize layout))
                                   (Commands list))
                     (CommandLists drawData))"
proof -
  let ?scaled = "ScaleClipRects (Vec2 (fst framebufferSize / fst displaySize)
                                      (snd framebufferSize / snd displaySize)) drawData"
  let ?spec = "spec_draw_data_calls renderer (snd framebufferSize) (drawType_of layout)
                 (indexSize layout) ?scaled"
  let ?g1 = "gl_do (ActiveTexture TEXTURE0) g"
  let ?g2 = "setup_render_state renderer (fst displaySize) (snd displaySize)
               (fst framebufferSize) (snd framebufferSize) ?g1"
  let ?g3 = "snd (setup_vertex_array layout renderer ?g2)"
  let ?g4 = "render_draw_data renderer (snd framebufferSize) (drawType_of layout)
               (indexSize layout) ?scaled ?g3"
  let ?g5 = "gl_do (DeleteVertexArrays (fst (setup_vertex_array layout renderer ?g2))) ?g4"
  let ?g6 = "restore_gl_state (fst (backup_gl_state g)) ?g5"
  obtain cs2 where cs2: "calls ?g2 = calls ?g1 @ cs2" "filter is_draw_or_callback cs2 = []"
    using setup_render_state_calls by blast
  obtain cs3 where cs3: "calls ?g3 = calls ?g2 @ cs3" "filter is_draw_or_callback cs3 = []"
    using setup_vertex_array_calls by blast
  obtain cs6 where cs6: "calls ?g6 = calls ?g5 @ cs6" "filter is_draw_or_callback cs6 = []"
    using restore_gl_state_calls by blast
  let ?pre = "[ActiveTexture TEXTURE0] @ cs2 @ cs3"
  let ?post = "[DeleteVertexArrays (fst (setup_vertex_array layout renderer ?g2))] @ cs6"
  have R: "Render layout renderer displaySize framebufferSize drawData g = ?g6"
    using assms by (rule Render_phases)
  have eq: "calls ?g6 = calls g @ ?pre @ ?spec @ ?post"
    by (simp add: cs6(1) render_draw_data_calls cs3(1) cs2(1))
  have pre: "filter is_draw_or_callback ?pre = []" and post: "filter is_draw_or_callback ?post = []"
    by (simp_all add: cs2(2) cs3(2) cs6(2))
  have first: "\<exists>pre post. calls ?g6 = calls g @ pre @ ?spec @ post
                 \<and> filter is_draw_or_callback pre = [] \<and> filter is_draw_or_callback post = []"
    using eq pre post by blast
  have "filter is_draw_or_callback (calls ?g6)
        = filter is_draw_or_callback (calls g) @ filter is_draw_or_callback ?spec"
    unfolding eq using pre post by (simp del: append.simps)
  then have second: "filter is_draw_or_callback (calls ?g6)
        = filter is_draw_or_callback (calls g)
          @ concat (map (\<lambda>list. map (spec_draw_or_callback (drawType_of layout) (indexSize layout))
                                   (Commands list))
                     (CommandLists drawData))"
    by (simp only: filter_spec_draw_data_calls spec_draw_or_callback_scaled)
  show ?thesis
    unfolding R using first second by blast
qed

theorem Render_translates_draw_data_witness:
  "filter is_draw_or_callback
     (calls (Render BufferLayout_example OpenGL3_example (1280, 720) (2560, 1440)
               DrawData_example gl_example))
   = [DrawElementsBaseVertexWithOffset TRIANGLES 6 UNSIGNED_SHORT 0 0,
      CallUserCallback (exec (Enable DEPTH_TEST)),
      DrawElementsBaseVertexWithOffset TRIANGLES 6 UNSIGNED_SHORT 12 0,
      DrawElementsBaseVertexWithOffset TRIANGLES 3 UNSIGNED_SHORT 0 4]"
proof -
  have "(0::real) < fst (2560, 1440)" and "(0::real) < snd (2560, 1440)"
    by simp_all
  from Render_translates_draw_data [OF this, of BufferLayout_example OpenGL3_example
      "(1280, 720)" DrawData_example gl_example]
  show ?thesis
    by (simp add: DrawData_example_def DrawCommand_example_def Callback_example_def
        spec_draw_or_callback_def spec_draw_call_def drawType_of_def BufferLayout_example_def
        bytesPerUint32_def gl_example_def)
qed

subsection \<open>Construction of the renderer, and the three constructors together\<close>





subsection \<open>Dispose\<close>

lemma Quit_after_Quit:
  assumes "\<not> initialised w" and "windows w = []"
  shows "Quit w = sdl_log sdl_Quit w"
  using assms by (simp add: Quit_def sdl_log_def)

lemma Dispose_released:
  "window (fst (Dispose pw)) = None \<and> \<not> initialised (snd (Dispose pw))
   \<and> windows (snd (Dispose pw)) = []"
  by (cases pw) (simp add: Dispose_def Quit_def split: option.splits)

lemma Dispose_twice:
  "Dispose (Dispose pw) = (fst (Dispose pw), sdl_log sdl_Quit (snd (Dispose pw)))"
proof -
  have "Dispose (Dispose pw) = (fst (Dispose pw), Quit (snd (Dispose pw)))"
    using Dispose_released [of pw] by (cases "Dispose pw") (simp add: Dispose_def)
  then show ?thesis
    using Dispose_released [of pw] by (simp add: Quit_after_Quit)
qed

lemma Dispose_calls:
  "sdl_calls (snd (Dispose (platform, w)))
   = sdl_calls w
     @ (case window platform of Some win \<Rightarrow> [sdl_Window_Destroy win] | None \<Rightarrow> [])
     @ [sdl_Quit]"
  by (simp add: Dispose_def Quit_def Window_Destroy_def sdl_log_def split: option.splits)

lemma Dispose_platform:
  "fst (Dispose (platform, w)) = platform\<lparr>window := None\<rparr>"
  by (cases platform) (simp add: Dispose_def split: option.splits)

lemma calls_if_gl_do:
  "calls (if b then gl_do call g else g) = calls g @ (if b then [call] else [])"
  by simp

lemma invalidateDeviceObjects_handles:
  "vboHandle (fst (invalidateDeviceObjects s)) = 0
   \<and> elementsHandle (fst (invalidateDeviceObjects s)) = 0
   \<and> vertHandle (fst (invalidateDeviceObjects s)) = 0
   \<and> fragHandle (fst (invalidateDeviceObjects s)) = 0
   \<and> shaderHandle (fst (invalidateDeviceObjects s)) = 0
   \<and> fontTexture (fst (invalidateDeviceObjects s)) = 0"
  by (cases s) (simp add: invalidateDeviceObjects_def Let_def)

lemma invalidateDeviceObjects_released:
  assumes "vboHandle r = 0" "elementsHandle r = 0" "vertHandle r = 0" "fragHandle r = 0"
    "shaderHandle r = 0" "fontTexture r = 0"
  shows "invalidateDeviceObjects (r, g, imguiIO) = (r, g, imguiIO)"
  using assms by (simp add: invalidateDeviceObjects_def Let_def)

lemma invalidateDeviceObjects_twice:
  "invalidateDeviceObjects (invalidateDeviceObjects s) = invalidateDeviceObjects s"
proof -
  obtain r g imguiIO where s': "invalidateDeviceObjects s = (r, g, imguiIO)"
    by (cases "invalidateDeviceObjects s") auto
  with invalidateDeviceObjects_handles [of s]
  have "vboHandle r = 0" "elementsHandle r = 0" "vertHandle r = 0" "fragHandle r = 0"
    "shaderHandle r = 0" "fontTexture r = 0"
    by simp_all
  then show ?thesis
    unfolding s' by (rule invalidateDeviceObjects_released)
qed

lemma invalidateDeviceObjects_renderer:
  "fst (invalidateDeviceObjects (r, g, imguiIO))
   = r\<lparr>fontTexture := 0, shaderHandle := 0, vertHandle := 0, fragHandle := 0,
       vboHandle := 0, elementsHandle := 0\<rparr>"
  by (cases r) (simp add: invalidateDeviceObjects_def Let_def)

lemma invalidateDeviceObjects_calls:
  "calls (fst (snd (invalidateDeviceObjects (r, g, imguiIO))))
   = calls g
     @ (if vboHandle r \<noteq> 0 then [DeleteBuffers (vboHandle r)] else [])
     @ (if elementsHandle r \<noteq> 0 then [DeleteBuffers (elementsHandle r)] else [])
     @ (if shaderHandle r \<noteq> 0 \<and> vertHandle r \<noteq> 0
        then [DetachShader (shaderHandle r) (vertHandle r)] else [])
     @ (if vertHandle r \<noteq> 0 then [DeleteShader (vertHandle r)] else [])
     @ (if shaderHandle r \<noteq> 0 \<and> fragHandle r \<noteq> 0
        then [DetachShader (shaderHandle r) (fragHandle r)] else [])
     @ (if fragHandle r \<noteq> 0 then [DeleteShader (fragHandle r)] else [])
     @ (if shaderHandle r \<noteq> 0 then [DeleteProgram (shaderHandle r)] else [])
     @ (if fontTexture r \<noteq> 0 then [DeleteTextures (fontTexture r)] else [])"
proof (cases "fontTexture r = 0")
  case True
  then show ?thesis
    by (simp add: invalidateDeviceObjects_def Let_def calls_if_gl_do del: calls_gl_do)
next
  case False
  then show ?thesis
    by (simp add: invalidateDeviceObjects_def Let_def calls_if_gl_do)
qed

lemma invalidateDeviceObjects_io_calls:
  "io_calls (snd (snd (invalidateDeviceObjects (r, g, imguiIO))))
   = io_calls imguiIO @ (if fontTexture r \<noteq> 0 then [FontsSetTextureID 0] else [])"
  by (simp add: invalidateDeviceObjects_def Let_def io_call_def)

text \<open>
  C8, as stated, fails for the SDL platform: \<^verbatim>\<open>Dispose\<close> calls \<^verbatim>\<open>sdl.Quit\<close>
  whatever the state of the platform, so a second \<^verbatim>\<open>Dispose\<close> is a call to the
  library again and does not leave things as the first one left them.
\<close>

theorem SDL_Dispose_repeats_Quit:
  "Dispose (Dispose (SDL_example, sdl_world_ok)) \<noteq> Dispose (SDL_example, sdl_world_ok)
   \<and> sdl_calls (snd (Dispose (SDL_example, sdl_world_ok)))
     = [sdl_Window_Destroy 1, sdl_Quit]
   \<and> sdl_calls (snd (Dispose (Dispose (SDL_example, sdl_world_ok))))
     = [sdl_Window_Destroy 1, sdl_Quit, sdl_Quit]"
proof -
  have 1: "sdl_calls (snd (Dispose (SDL_example, sdl_world_ok)))
           = [sdl_Window_Destroy 1, sdl_Quit]"
    by (simp add: Dispose_calls SDL_example_def sdl_world_ok_def)
  have 2: "sdl_calls (snd (Dispose (Dispose (SDL_example, sdl_world_ok))))
           = [sdl_Window_Destroy 1, sdl_Quit, sdl_Quit]"
    by (simp add: Dispose_twice sdl_log_def 1)
  from 1 2 have "sdl_calls (snd (Dispose (Dispose (SDL_example, sdl_world_ok))))
                 \<noteq> sdl_calls (snd (Dispose (SDL_example, sdl_world_ok)))"
    by simp
  then have "Dispose (Dispose (SDL_example, sdl_world_ok)) \<noteq> Dispose (SDL_example, sdl_world_ok)"
    by auto
  with 1 2 show ?thesis by simp
qed

text \<open>
  C8, amended. \<^verbatim>\<open>Dispose\<close> of the renderer is idempotent; \<^verbatim>\<open>Dispose\<close> of the SDL
  platform is idempotent but for the call \<^verbatim>\<open>sdl.Quit\<close>, which every call issues.
  For every state:
  \<^item> the first \<^verbatim>\<open>Dispose\<close> of the SDL platform issues \<^verbatim>\<open>Destroy\<close> of the window
    exactly when the field \<^verbatim>\<open>window\<close> is not \<^verbatim>\<open>nil\<close>, then \<^verbatim>\<open>sdl.Quit\<close>, and
    nothing else; it sets \<^verbatim>\<open>window\<close> to \<^verbatim>\<open>nil\<close> and changes no other field; after
    it no window is live and SDL is not initialised;
  \<^item> a second \<^verbatim>\<open>Dispose\<close> of the SDL platform issues the one call \<^verbatim>\<open>sdl.Quit\<close>,
    so no \<^verbatim>\<open>Destroy\<close>, and changes nothing else;
  \<^item> the first \<^verbatim>\<open>Dispose\<close> of the renderer issues, in this order and nothing else,
    \<^verbatim>\<open>DeleteBuffers\<close> for each of the two buffer handles that is not zero,
    \<^verbatim>\<open>DetachShader\<close> (when the program handle is not zero either) and
    \<^verbatim>\<open>DeleteShader\<close> for each of the two shader handles that is not zero,
    \<^verbatim>\<open>DeleteProgram\<close> when the program handle is not zero and \<^verbatim>\<open>DeleteTextures\<close>
    when the font texture is not zero, in which case it also resets the texture identifier
    of the font atlas; it sets the six handles to zero and changes no other field;
  \<^item> a second \<^verbatim>\<open>Dispose\<close> of the renderer issues no call and changes nothing.
\<close>

theorem Dispose_releases_once:
  "sdl_calls (snd (Dispose (platform, w)))
     = sdl_calls w
       @ (case window platform of Some win \<Rightarrow> [sdl_Window_Destroy win] | None \<Rightarrow> [])
       @ [sdl_Quit]
   \<and> fst (Dispose (platform, w)) = platform\<lparr>window := None\<rparr>
   \<and> \<not> initialised (snd (Dispose (platform, w)))
   \<and> windows (snd (Dispose (platform, w))) = []
   \<and> Dispose (Dispose (platform, w))
       = (fst (Dispose (platform, w)), sdl_log sdl_Quit (snd (Dispose (platform, w))))
   \<and> calls (fst (snd (OpenGL3_Dispose (r, g, imguiIO))))
       = calls g
         @ (if vboHandle r \<noteq> 0 then [DeleteBuffers (vboHandle r)] else [])
         @ (if elementsHandle r \<noteq> 0 then [DeleteBuffers (elementsHandle r)] else [])
         @ (if shaderHandle r \<noteq> 0 \<and> vertHandle r \<noteq> 0
            then [DetachShader (shaderHandle r) (vertHandle r)] else [])
         @ (if vertHandle r \<noteq> 0 then [DeleteShader (vertHandle r)] else [])
         @ (if shaderHandle r \<noteq> 0 \<and> fragHandle r \<noteq> 0
            then [DetachShader (shaderHandle r) (fragHandle r)] else [])
         @ (if fragHandle r \<noteq> 0 then [DeleteShader (fragHandle r)] else [])
         @ (if shaderHandle r \<noteq> 0 then [DeleteProgram (shaderHandle r)] else [])
         @ (if fontTexture r \<noteq> 0 then [DeleteTextures (fontTexture r)] else [])
   \<and> io_calls (snd (snd (OpenGL3_Dispose (r, g, imguiIO))))
       = io_calls imguiIO @ (if fontTexture r \<noteq> 0 then [FontsSetTextureID 0] else [])
   \<and> fst (OpenGL3_Dispose (r, g, imguiIO))
       = r\<lparr>fontTexture := 0, shaderHandle := 0, vertHandle := 0, fragHandle := 0,
           vboHandle := 0, elementsHandle := 0\<rparr>
   \<and> OpenGL3_Dispose (OpenGL3_Dispose (r, g, imguiIO)) = OpenGL3_Dispose (r, g, imguiIO)"
  using Dispose_calls [of platform w] Dispose_platform [of platform w]
    Dispose_released [of "(platform, w)"] Dispose_twice [of "(platform, w)"]
    invalidateDeviceObjects_calls [of r g imguiIO]
    invalidateDeviceObjects_io_calls [of r g imguiIO]
    invalidateDeviceObjects_renderer [of r g imguiIO]
    invalidateDeviceObjects_twice [of "(r, g, imguiIO)"]
  unfolding OpenGL3_Dispose_def by blast

theorem Dispose_releases_once_witness:
  "sdl_calls (snd (Dispose (SDL_example\<lparr>window := None\<rparr>, sdl_world_ok))) = [sdl_Quit]
   \<and> calls (fst (snd (OpenGL3_Dispose (OpenGL3_example, gl_example, imgui_IO_initial))))
     = [DeleteBuffers 14, DeleteBuffers 15, DetachShader 11 12, DeleteShader 12,
        DetachShader 11 13, DeleteShader 13, DeleteProgram 11, DeleteTextures 16]
   \<and> calls (fst (snd (OpenGL3_Dispose
        (OpenGL3_example\<lparr>shaderHandle := 0\<rparr>, gl_example, imgui_IO_initial))))
     = [DeleteBuffers 14, DeleteBuffers 15, DeleteShader 12, DeleteShader 13, DeleteTextures 16]
   \<and> calls (fst (snd (OpenGL3_Dispose
        (OpenGL3_Dispose (OpenGL3_example, gl_example, imgui_IO_initial)))))
     = [DeleteBuffers 14, DeleteBuffers 15, DetachShader 11 12, DeleteShader 12,
        DetachShader 11 13, DeleteShader 13, DeleteProgram 11, DeleteTextures 16]
   \<and> io_calls (snd (snd (OpenGL3_Dispose (OpenGL3_example, gl_example, imgui_IO_initial))))
     = [FontsSetTextureID 0]"
proof -
  have c: "sdl_calls sdl_world_ok = []" "calls gl_example = []" "io_calls imgui_IO_initial = []"
    by (simp_all add: sdl_world_ok_def gl_example_def imgui_IO_initial_def)
  from Dispose_releases_once [of "SDL_example\<lparr>window := None\<rparr>" sdl_world_ok
      OpenGL3_example gl_example imgui_IO_initial]
    Dispose_releases_once [of "SDL_example\<lparr>window := None\<rparr>" sdl_world_ok
      "OpenGL3_example\<lparr>shaderHandle := 0\<rparr>" gl_example imgui_IO_initial]
  show ?thesis
    by (simp add: c OpenGL3_example_def)
qed

end
